theory Spec2Isabelle
  imports Main "HOL-Library.Sublist"
begin

section \<open>JavaScript values used by the patch rules\<close>

text \<open>
  The version components are JavaScript numbers produced by \<open>parseInt(s, 10)\<close>, or
  \<open>undefined\<close> where the destructuring \<open>[major, minor, ...rest]\<close> finds no element.
  A number is either not-a-number or an integer. Strings are sequences of code units
  below 256. Digit strings are read exactly: the rounding of integers above \<open>2^53\<close> to a
  double is not modelled (it is monotone, so it changes no comparison against the small
  bounds of the rules).
\<close>

datatype jsval = Undefined | NaN | Num int

text \<open>The relational operators convert \<open>undefined\<close> to not-a-number, and every
  comparison with not-a-number is false.\<close>

fun js_lt :: "jsval \<Rightarrow> jsval \<Rightarrow> bool" where
  "js_lt (Num a) (Num b) = (a < b)"
| "js_lt _ _ = False"

fun js_le :: "jsval \<Rightarrow> jsval \<Rightarrow> bool" where
  "js_le (Num a) (Num b) = (a \<le> b)"
| "js_le _ _ = False"

text \<open>\<open>==\<close> and \<open>===\<close> on numbers and \<open>undefined\<close>.\<close>

fun js_eq :: "jsval \<Rightarrow> jsval \<Rightarrow> bool" where
  "js_eq (Num a) (Num b) = (a = b)"
| "js_eq Undefined Undefined = True"
| "js_eq _ _ = False"

fun truthy :: "jsval \<Rightarrow> bool" where
  "truthy (Num a) = (a \<noteq> 0)"
| "truthy _ = False"

text \<open>\<open>a || b\<close>\<close>

definition js_or :: "jsval \<Rightarrow> jsval \<Rightarrow> jsval" where
  "js_or a b = (if truthy a then a else b)"

text \<open>\<open>xs[i]\<close> on a JavaScript array: \<open>undefined\<close> out of range.\<close>

definition js_nth :: "jsval list \<Rightarrow> nat \<Rightarrow> jsval" where
  "js_nth xs i = (if i < length xs then xs ! i else Undefined)"

section \<open>Strings\<close>

definition isDigit :: "char \<Rightarrow> bool" where
  "isDigit c \<longleftrightarrow> 48 \<le> (of_char c :: nat) \<and> (of_char c :: nat) \<le> 57"

text \<open>The white space and line terminators that \<open>parseInt\<close> and \<open>trim\<close> strip, among
  the code units below 256: TAB, LF, VT, FF, CR, SP, NBSP.\<close>

definition isStrWhiteSpace :: "char \<Rightarrow> bool" where
  "isStrWhiteSpace c \<longleftrightarrow> (of_char c :: nat) \<in> {9, 10, 11, 12, 13, 32, 160}"

definition digits_value :: "string \<Rightarrow> int" where
  "digits_value ds = foldl (\<lambda>acc c. 10 * acc + int (of_char c - 48)) 0 ds"

text \<open>\<open>parseInt(s, 10)\<close>: leading white space is skipped, one sign is read, then the
  longest run of decimal digits; with no digit there the result is not-a-number.\<close>

definition parseInt :: "string \<Rightarrow> jsval" where
  "parseInt s =
     (let s1 = dropWhile isStrWhiteSpace s;
          sign = (case s1 of c # _ \<Rightarrow> (if c = CHR ''-'' then - 1 else 1) | [] \<Rightarrow> (1::int));
          s2 = (case s1 of c # r \<Rightarrow> (if c = CHR ''-'' \<or> c = CHR ''+'' then r else s1) | [] \<Rightarrow> s1);
          ds = takeWhile isDigit s2
      in if ds = [] then NaN else Num (sign * digits_value ds))"

text \<open>What a numeric component is for \<open>parseInt\<close>, said without it: at most one sign
  after the leading white space, then a decimal digit.\<close>

fun starts_with_digit :: "string \<Rightarrow> bool" where
  "starts_with_digit [] = False"
| "starts_with_digit (c # r) = isDigit c"

fun without_sign :: "string \<Rightarrow> string" where
  "without_sign [] = []"
| "without_sign (c # r) = (if c = CHR ''-'' \<or> c = CHR ''+'' then r else c # r)"

definition numeric_component :: "string \<Rightarrow> bool" where
  "numeric_component s = starts_with_digit (without_sign (dropWhile isStrWhiteSpace s))"

text \<open>\<open>s.split(c)\<close> for a one-character separator: never an empty array.\<close>

fun split_on :: "char \<Rightarrow> string \<Rightarrow> string list" where
  "split_on c [] = [[]]"
| "split_on c (x # xs) =
     (if x = c then [] # split_on c xs
      else (case split_on c xs of y # ys \<Rightarrow> (x # y) # ys | [] \<Rightarrow> [[x]]))"

text \<open>\<open>s.replace(/^OTP-/, "")\<close>\<close>

definition strip_OTP :: "string \<Rightarrow> string" where
  "strip_OTP s = (if take 4 s = ''OTP-'' then drop 4 s else s)"

text \<open>The first line of \<open>maybePatch\<close> and of \<open>maybeApplyPatch\<close>:
  \<open>otpVersion.replace(/^OTP-/, "").split(".").map((string) => parseInt(string, 10))\<close>\<close>

definition parse_version :: "string \<Rightarrow> jsval list" where
  "parse_version otpVersion = map parseInt (split_on CHR ''.'' (strip_OTP otpVersion))"

text \<open>\<open>const [major, minor, ...rest] = ...\<close>\<close>

definition major_of :: "jsval list \<Rightarrow> jsval" where
  "major_of xs = js_nth xs 0"

definition minor_of :: "jsval list \<Rightarrow> jsval" where
  "minor_of xs = js_nth xs 1"

definition rest_of :: "jsval list \<Rightarrow> jsval list" where
  "rest_of xs = drop 2 xs"

section \<open>The process, its environment and its errors\<close>

text \<open>The three diffs that the program pipes into \<open>patch\<close>, as opaque payloads; the
  older revision of the module carries its own copy of the Catalina diff.\<close>

datatype patch = WxPtrPatch | CatarinaNoWeakImportsPatch | ZlibPatch | CatalinaPatchInline

text \<open>Every call that leaves the process is recorded, in order, with its arguments.
  \<open>Exec\<close> also records the standard input and the working directory of the call.\<close>

datatype call =
    Exec string "string list" "patch option" string
  | ReadDir string
  | StatSync string
  | WriteFile string string
  | Chdir string
  | GetReleaseByTag string "string option" string
  | CreateRelease string "string option" string
  | ListAssetsForRelease string "string option" nat
  | UploadReleaseAsset string string string nat

datatype error =
    ExecError string
  | FsError string
  | HttpError nat
  | UnexpectedError error
  | NoSubDirectory string
  | TooManySubDirectories string "string list"
  | TokenRequired
  | TypeError

datatype log_entry = Info string | ErrorLog string error | SetFailed error

text \<open>
  The environment is everything the program does not decide: the host, the
  configuration inputs, and the outcome of each external call, which may depend on all
  the calls made before it (the first argument of each oracle).
  \<open>api_fault\<close> is an error response of the registry client that has nothing to do with
  the registry's contents (a network failure, a server error); \<open>None\<close> means that the
  registry serves the request.
\<close>

record env =
  platform :: string
  cpu_count :: nat
  secret_token :: string
  target_pattern :: string
  github_repository :: "string option"
  exec_ok :: "call list \<Rightarrow> call \<Rightarrow> bool"
  exec_stdout :: "call list \<Rightarrow> call \<Rightarrow> string"
  dir_entries :: "call list \<Rightarrow> string \<Rightarrow> (string \<times> bool) list option"
  file_size :: "call list \<Rightarrow> string \<Rightarrow> nat option"
  write_ok :: "call list \<Rightarrow> string \<Rightarrow> bool"
  chdir_ok :: "call list \<Rightarrow> string \<Rightarrow> bool"
  api_fault :: "call list \<Rightarrow> call \<Rightarrow> nat option"
  upload_url_of :: "nat \<Rightarrow> string"

text \<open>
  The state: the working directory of the process, the calls made so far, the log, the
  registry (releases by owner, repository and tag; assets by release id) and the
  outcomes of promises that nobody awaits.
\<close>

record world =
  cwd :: string
  trace :: "call list"
  logs :: "log_entry list"
  releases :: "string \<times> string option \<times> string \<Rightarrow> (nat \<times> string) option"
  assets :: "nat \<Rightarrow> (nat \<times> string) list"
  next_id :: nat
  floating :: "(error + unit) list"

type_synonym 'a action = "world \<Rightarrow> (error + 'a) \<times> world"

text \<open>\<open>const x = await m; ...\<close>: a rejection of \<open>m\<close> ends the function.\<close>

definition await :: "'a action \<Rightarrow> ('a \<Rightarrow> 'b action) \<Rightarrow> 'b action" where
  "await m f w = (case m w of (Inl e, w') \<Rightarrow> (Inl e, w') | (Inr x, w') \<Rightarrow> f x w')"

definition resolve :: "'a \<Rightarrow> 'a action" where
  "resolve x w = (Inr x, w)"

definition reject :: "error \<Rightarrow> 'a action" where
  "reject e w = (Inl e, w)"

definition record_call :: "call \<Rightarrow> world \<Rightarrow> world" where
  "record_call c w = w\<lparr>trace := trace w @ [c]\<rparr>"

text \<open>\<open>exec(cmd, args, {input})\<close> of \<open>@actions/exec\<close>: rejects when the command cannot
  be started or exits with a non-zero code, else resolves; the listeners have seen the
  standard output.\<close>

definition exec :: "env \<Rightarrow> string \<Rightarrow> string list \<Rightarrow> patch option \<Rightarrow> string action" where
  "exec E cmd args inp w =
     (let c = Exec cmd args inp (cwd w) in
      if exec_ok E (trace w) c then (Inr (exec_stdout E (trace w) c), record_call c w)
      else (Inl (ExecError cmd), record_call c w))"

section \<open>The patch rules\<close>

definition applyWxPtrPatch :: "env \<Rightarrow> unit action" where
  "applyWxPtrPatch E =
     await (exec E ''patch'' [''-p1'', ''--quiet''] (Some WxPtrPatch)) (\<lambda>_. resolve ())"

definition maybePatchDarwin :: "env \<Rightarrow> jsval \<Rightarrow> jsval \<Rightarrow> jsval list \<Rightarrow> unit action" where
  "maybePatchDarwin E major minor rest =
     (if js_le (Num 17) major \<and> js_le major (Num 19) then applyWxPtrPatch E
      else resolve ())"

definition applyCatarinaNoWeakImportsPatch :: "env \<Rightarrow> unit action" where
  "applyCatarinaNoWeakImportsPatch E =
     await (exec E ''patch'' [''-p1'', ''--quiet''] (Some CatarinaNoWeakImportsPatch))
       (\<lambda>_. resolve ())"

text \<open>The condition of \<open>maybePatchCatalina\<close>, and its last comparison
  \<open>(rest[0] || 0) < 1\<close> on its own.\<close>

definition catalina_rest_bound :: "jsval list \<Rightarrow> bool" where
  "catalina_rest_bound rest = js_lt (js_or (js_nth rest 0) (Num 0)) (Num 1)"

definition catalina_cond :: "jsval \<Rightarrow> jsval \<Rightarrow> jsval list \<Rightarrow> bool" where
  "catalina_cond major minor rest \<longleftrightarrow>
     (js_lt (Num 19) major \<and> js_lt major (Num 23)) \<or>
     (js_eq major (Num 19) \<and> js_lt (Num 1) minor) \<or>
     (js_eq major (Num 22) \<and> js_eq minor (Num 3) \<and> catalina_rest_bound rest)"

definition maybePatchCatalina :: "env \<Rightarrow> jsval \<Rightarrow> jsval \<Rightarrow> jsval list \<Rightarrow> unit action" where
  "maybePatchCatalina E major minor rest =
     (if catalina_cond major minor rest then applyCatarinaNoWeakImportsPatch E
      else resolve ())"

definition applyZlibPatch :: "env \<Rightarrow> unit action" where
  "applyZlibPatch E =
     await (exec E ''patch'' [''-p1'', ''--quiet''] (Some ZlibPatch)) (\<lambda>_. resolve ())"

definition maybePatchAll :: "env \<Rightarrow> jsval \<Rightarrow> jsval \<Rightarrow> jsval list \<Rightarrow> unit action" where
  "maybePatchAll E major minor rest =
     (if js_le (Num 17) major \<and> js_le major (Num 19) then applyZlibPatch E
      else resolve ())"

definition maybePatch :: "env \<Rightarrow> string \<Rightarrow> unit action" where
  "maybePatch E otpVersion =
     (let v = parse_version otpVersion;
          major = major_of v; minor = minor_of v; rest = rest_of v
      in await (if platform E = ''darwin''
                then await (maybePatchDarwin E major minor rest)
                       (\<lambda>_. maybePatchCatalina E major minor rest)
                else resolve ())
           (\<lambda>_. maybePatchAll E major minor rest))"

text \<open>The older revision of the module has one rule, \<open>maybeApplyPatch\<close>; its comment
  reads: the patch will be applied unless the platform isn't darwin, the OTP major
  version is equal or greater than 23, the OTP version is equal or greater than 22.3.1.\<close>

definition maybeApplyPatch_skips :: "string \<Rightarrow> jsval \<Rightarrow> jsval \<Rightarrow> jsval list \<Rightarrow> bool" where
  "maybeApplyPatch_skips plat major minor rest \<longleftrightarrow>
     plat \<noteq> ''darwin'' \<or> js_le (Num 23) major \<or>
     (js_eq major (Num 22) \<and> js_eq minor (Num 3) \<and> js_le (Num 1) (js_nth rest 0))"

definition maybeApplyPatch :: "env \<Rightarrow> string \<Rightarrow> unit action" where
  "maybeApplyPatch E otpVersion =
     (let v = parse_version otpVersion;
          major = major_of v; minor = minor_of v; rest = rest_of v
      in if maybeApplyPatch_skips (platform E) major minor rest then resolve ()
         else await (exec E ''patch'' [''-p1'', ''--quiet''] (Some CatalinaPatchInline))
                (\<lambda>_. resolve ()))"

text \<open>The patches piped into \<open>patch\<close> by the calls of a trace, in order.\<close>

fun patch_of_call :: "call \<Rightarrow> patch list" where
  "patch_of_call (Exec cmd args (Some p) d) = (if cmd = ''patch'' then [p] else [])"
| "patch_of_call _ = []"

definition applied_patches :: "call list \<Rightarrow> patch list" where
  "applied_patches tr = concat (map patch_of_call tr)"

text \<open>The calls made between two states.\<close>

definition calls_since :: "world \<Rightarrow> world \<Rightarrow> call list" where
  "calls_since w w' = drop (length (trace w)) (trace w')"

subsection \<open>The selector as a table of rules\<close>

text \<open>
  The specification describes the same decisions as an ordered table of rules, each a
  platform predicate, a version predicate and a payload, of which all matching ones are
  taken in the declared order: the two darwin rules first, the cross-platform rule last.
\<close>

record patch_rule =
  rule_patch :: patch
  rule_platform :: "string \<Rightarrow> bool"
  rule_version :: "jsval \<Rightarrow> jsval \<Rightarrow> jsval list \<Rightarrow> bool"

definition patch_rules :: "patch_rule list" where
  "patch_rules =
     [\<lparr>rule_patch = WxPtrPatch, rule_platform = (\<lambda>p. p = ''darwin''),
        rule_version = (\<lambda>major minor rest. js_le (Num 17) major \<and> js_le major (Num 19))\<rparr>,
      \<lparr>rule_patch = CatarinaNoWeakImportsPatch, rule_platform = (\<lambda>p. p = ''darwin''),
        rule_version = catalina_cond\<rparr>,
      \<lparr>rule_patch = ZlibPatch, rule_platform = (\<lambda>p. True),
        rule_version = (\<lambda>major minor rest. js_le (Num 17) major \<and> js_le major (Num 19))\<rparr>]"

definition selectPatches :: "string \<Rightarrow> jsval list \<Rightarrow> patch list" where
  "selectPatches plat v =
     map rule_patch
       (filter (\<lambda>r. rule_platform r plat \<and> rule_version r (major_of v) (minor_of v) (rest_of v))
          patch_rules)"

text \<open>The build driver's first stage on such a list: each patch in order, stopping at
  the first one that \<open>patch\<close> rejects.\<close>

fun apply_patches :: "env \<Rightarrow> patch list \<Rightarrow> unit action" where
  "apply_patches E [] = resolve ()"
| "apply_patches E (p # ps) =
     await (exec E ''patch'' [''-p1'', ''--quiet''] (Some p)) (\<lambda>_. apply_patches E ps)"

section \<open>Strings and paths of the build and packaging steps\<close>

text \<open>\<open>s.trim()\<close>\<close>

definition trim :: "string \<Rightarrow> string" where
  "trim s = rev (dropWhile isStrWhiteSpace (rev (dropWhile isStrWhiteSpace s)))"

text \<open>\<open>s.toLowerCase()\<close> on code units below 256.\<close>

definition toLowerChar :: "char \<Rightarrow> char" where
  "toLowerChar c =
     (let n = (of_char c :: nat)
      in if (65 \<le> n \<and> n \<le> 90) \<or> (192 \<le> n \<and> n \<le> 222 \<and> n \<noteq> 215)
         then char_of (n + 32) else c)"

definition toLowerCase :: "string \<Rightarrow> string" where
  "toLowerCase s = map toLowerChar s"

text \<open>\<open>s.replace(" ", "-")\<close>: the first occurrence only.\<close>

fun replace_first :: "char \<Rightarrow> char \<Rightarrow> string \<Rightarrow> string" where
  "replace_first a b [] = []"
| "replace_first a b (x # xs) = (if x = a then b # xs else x # replace_first a b xs)"

text \<open>The lines that \<open>@actions/exec\<close> hands to a \<open>stdline\<close> listener: the pieces of
  the output that end with a line feed, without it. Output after the last line feed
  never reaches the listener.\<close>

definition stdlines :: "string \<Rightarrow> string list" where
  "stdlines out = butlast (split_on (CHR 0x0A) out)"

text \<open>Template literals print a count in decimal.\<close>

fun string_of_nat :: "nat \<Rightarrow> string" where
  "string_of_nat n =
     (if n < 10 then [char_of (48 + n)]
      else string_of_nat (n div 10) @ [char_of (48 + n mod 10)])"

declare string_of_nat.simps [simp del]

text \<open>
  The functions of Node's \<open>path\<close> module, for POSIX paths in normal form (no empty,
  \<open>.\<close> or \<open>..\<close> segment, no trailing slash).
\<close>

definition path_join :: "string \<Rightarrow> string \<Rightarrow> string" where
  "path_join d n = (if d = [] then n else if last d = CHR ''/'' then d @ n else d @ ''/'' @ n)"

definition path_basename :: "string \<Rightarrow> string" where
  "path_basename p = last (split_on CHR ''/'' p)"

text \<open>A path in normal form: an absolute or relative path with at least one name,
  whose names are not empty, \<open>.\<close> or \<open>..\<close>.\<close>

definition plain_name :: "string \<Rightarrow> bool" where
  "plain_name t \<longleftrightarrow> t \<noteq> [] \<and> t \<noteq> ''.'' \<and> t \<noteq> ''..''"

definition normal_path :: "string \<Rightarrow> bool" where
  "normal_path p =
     (case split_on CHR ''/'' p of
        [] \<Rightarrow> False
      | s # ss \<Rightarrow> (if s = [] then ss \<noteq> [] else plain_name s) \<and> list_all plain_name ss)"

text \<open>\<open>path.parse(p).dir\<close> and \<open>path.parse(p).base\<close>\<close>

definition path_dir :: "string \<Rightarrow> string" where
  "path_dir p =
     (if CHR ''/'' \<notin> set p then []
      else (let d = take (length p - length (path_basename p) - 1) p
            in if d = [] then ''/'' else d))"

text \<open>\<open>path.basename(base, ext)\<close>\<close>

definition path_basename_ext :: "string \<Rightarrow> string \<Rightarrow> string" where
  "path_basename_ext base ext =
     (let b = path_basename base
      in if ext \<noteq> [] \<and> length ext \<le> length base
         then (if ext = base then []
               else if length ext < length b \<and> drop (length b - length ext) b = ext
                    then take (length b - length ext) b
                    else b)
         else b)"

section \<open>Build\<close>

text \<open>\<open>make\<close>; the log groups that wrap the four build stages are not modelled.\<close>

definition make :: "env \<Rightarrow> unit action" where
  "make E =
     (let cpuCount = cpu_count E
      in await (if platform E = ''darwin''
                then await (exec E ''brew'' [''--prefix'', ''openssl''] None)
                       (\<lambda>opensslPath. resolve (''--with-ssl='' @ trim opensslPath))
                else resolve ''--with-ssl'')
           (\<lambda>sslOption.
              await (exec E ''./otp_build'' [''autoconf''] None) (\<lambda>_.
              await (exec E ''./configure'' [sslOption, ''--enable-dirty-schedulers''] None) (\<lambda>_.
              await (exec E ''make'' [''-j'' @ string_of_nat cpuCount] None) (\<lambda>_.
              await (exec E ''make'' [''release''] None) (\<lambda>_. resolve ()))))))"

section \<open>Packaging\<close>

text \<open>\<open>readdirSync(dir, {withFileTypes: true})\<close>: the entries with their
  \<open>isDirectory()\<close>, or an exception when the directory cannot be read.\<close>

definition readdirSync :: "env \<Rightarrow> string \<Rightarrow> (string \<times> bool) list action" where
  "readdirSync E d w =
     (case dir_entries E (trace w) d of
        None \<Rightarrow> (Inl (FsError d), record_call (ReadDir d) w)
      | Some ents \<Rightarrow> (Inr ents, record_call (ReadDir d) w))"

text \<open>\<open>chdir(d)\<close>: the working directory changes unless the call throws.\<close>

definition chdir :: "env \<Rightarrow> string \<Rightarrow> unit action" where
  "chdir E d w =
     (if chdir_ok E (trace w) d then (Inr (), (record_call (Chdir d) w)\<lparr>cwd := d\<rparr>)
      else (Inl (FsError d), record_call (Chdir d) w))"

definition archive :: "env \<Rightarrow> string \<Rightarrow> string action" where
  "archive E assetName w =
     (let currentWorkingDirectory = cwd w;
          releaseDirectory = path_join currentWorkingDirectory ''release''
      in await (readdirSync E releaseDirectory)
           (\<lambda>ents.
              let subDirectories = map fst (filter snd ents)
              in if length subDirectories < 1 then reject (NoSubDirectory releaseDirectory)
                 else if 1 < length subDirectories
                 then reject (TooManySubDirectories releaseDirectory subDirectories)
                 else
                   (let subDirectory = path_join releaseDirectory (subDirectories ! 0);
                        archivedPath = path_join releaseDirectory assetName
                    in await (chdir E subDirectory) (\<lambda>_.
                       await (exec E ''tar'' [''-zcf'', archivedPath, ''.''] None) (\<lambda>_.
                       await (chdir E currentWorkingDirectory) (\<lambda>_.
                       resolve archivedPath)))))
           w)"

text \<open>\<open>writeFileSync(path, text)\<close>\<close>

definition writeFileSync :: "env \<Rightarrow> string \<Rightarrow> string \<Rightarrow> unit action" where
  "writeFileSync E p txt w =
     (if write_ok E (trace w) p then (Inr (), record_call (WriteFile p txt) w)
      else (Inl (FsError p), record_call (WriteFile p txt) w))"

text \<open>\<open>buffer.split(" ", 1)[0]\<close>\<close>

definition first_token :: "string \<Rightarrow> string" where
  "first_token buffer = takeWhile (\<lambda>c. c \<noteq> CHR '' '') buffer"

definition sha256 :: "env \<Rightarrow> string \<Rightarrow> string action" where
  "sha256 E archivedPath =
     (let dir = path_dir archivedPath; base = path_basename archivedPath;
          sha256FileName = path_basename_ext base ''.tar.gz'' @ ''.sha256.txt'';
          sha256FilePath = path_join dir sha256FileName
      in await (exec E ''shasum'' [''-a'', ''256'', archivedPath] None)
           (\<lambda>out.
              let buffer = concat (stdlines out);
                  sha256 = first_token buffer
              in await (writeFileSync E sha256FilePath sha256) (\<lambda>_. resolve sha256FilePath)))"

section \<open>The release registry\<close>

text \<open>
  The registry is a collaborator outside the program. Its contract: a release is looked
  up by owner, repository and tag, and a missing one answers 404; creating a release
  stores it under a new id and answers 422 when the tag has a release already; the
  assets of a release are listed in order; an upload adds an asset to the release that
  the upload URL belongs to. The client refuses a call without repository name with
  status 400. Any call may fail for reasons of the environment (\<open>api_fault\<close>).
\<close>

definition getReleaseByTag :: "env \<Rightarrow> string \<Rightarrow> string option \<Rightarrow> string \<Rightarrow> (nat \<times> string) action" where
  "getReleaseByTag E owner repo tag w =
     (let c = GetReleaseByTag owner repo tag; w' = record_call c w
      in if repo = None then (Inl (HttpError 400), w')
         else (case api_fault E (trace w) c of
                 Some st \<Rightarrow> (Inl (HttpError st), w')
               | None \<Rightarrow>
                   (case releases w (owner, repo, tag) of
                      None \<Rightarrow> (Inl (HttpError 404), w')
                    | Some r \<Rightarrow> (Inr r, w'))))"

definition createReleaseApi :: "env \<Rightarrow> string \<Rightarrow> string option \<Rightarrow> string \<Rightarrow> (nat \<times> string) action" where
  "createReleaseApi E owner repo tag w =
     (let c = CreateRelease owner repo tag; w' = record_call c w
      in if repo = None then (Inl (HttpError 400), w')
         else (case api_fault E (trace w) c of
                 Some st \<Rightarrow> (Inl (HttpError st), w')
               | None \<Rightarrow>
                   (case releases w (owner, repo, tag) of
                      Some r \<Rightarrow> (Inl (HttpError 422), w')
                    | None \<Rightarrow>
                        (let r = (next_id w, upload_url_of E (next_id w))
                         in (Inr r, w'\<lparr>releases := (releases w)((owner, repo, tag) \<mapsto> r),
                                       next_id := Suc (next_id w)\<rparr>)))))"

definition listAssetsForRelease :: "env \<Rightarrow> string \<Rightarrow> string option \<Rightarrow> nat \<Rightarrow> (nat \<times> string) list action" where
  "listAssetsForRelease E owner repo release_id w =
     (let c = ListAssetsForRelease owner repo release_id; w' = record_call c w
      in if repo = None then (Inl (HttpError 400), w')
         else (case api_fault E (trace w) c of
                 Some st \<Rightarrow> (Inl (HttpError st), w')
               | None \<Rightarrow> (Inr (assets w release_id), w')))"

definition uploadReleaseAsset :: "env \<Rightarrow> string \<Rightarrow> string \<Rightarrow> string \<Rightarrow> nat \<Rightarrow> unit action" where
  "uploadReleaseAsset E url name assetPath contentLength w =
     (let c = UploadReleaseAsset url name assetPath contentLength; w' = record_call c w
      in case api_fault E (trace w) c of
           Some st \<Rightarrow> (Inl (HttpError st), w')
         | None \<Rightarrow>
             (Inr (), w'\<lparr>assets := (\<lambda>i. if upload_url_of E i = url
                                          then assets w i @ [(next_id w, name)] else assets w i),
                         next_id := Suc (next_id w)\<rparr>))"

section \<open>The registry client of the program\<close>

text \<open>\<open>e?.status\<close>\<close>

fun status_of :: "error \<Rightarrow> nat option" where
  "status_of (HttpError st) = Some st"
| "status_of _ = None"

definition getRelease :: "env \<Rightarrow> string \<Rightarrow> string option \<Rightarrow> string \<Rightarrow> (nat \<times> string) option action" where
  "getRelease E owner repo tag w =
     (case getReleaseByTag E owner repo tag w of
        (Inr r, w') \<Rightarrow> (Inr (Some r), w')
      | (Inl e, w') \<Rightarrow>
          (if status_of e \<noteq> Some 404 then (Inl (UnexpectedError e), w')
           else (Inr None, w')))"

definition createRelease :: "env \<Rightarrow> string \<Rightarrow> string option \<Rightarrow> string \<Rightarrow> (nat \<times> string) action" where
  "createRelease E owner repo tag =
     await (createReleaseApi E owner repo tag) (\<lambda>(id, upload_url). resolve (id, upload_url))"

text \<open>\<open>(await getRelease(...)) || (await createRelease(...))\<close>: a pair is truthy,
  \<open>undefined\<close> is not.\<close>

definition getOrCreateRelease :: "env \<Rightarrow> string \<Rightarrow> string option \<Rightarrow> string \<Rightarrow> (nat \<times> string) action" where
  "getOrCreateRelease E owner repo tag =
     await (getRelease E owner repo tag)
       (\<lambda>found. case found of Some r \<Rightarrow> resolve r | None \<Rightarrow> createRelease E owner repo tag)"

text \<open>\<open>assets.find((asset) => asset.name === assetName)\<close>, then \<open>result?.id\<close>\<close>

definition find_asset :: "(nat \<times> string) list \<Rightarrow> string \<Rightarrow> nat option" where
  "find_asset as assetName = map_option fst (find (\<lambda>asset. snd asset = assetName) as)"

definition getAsset :: "env \<Rightarrow> string \<Rightarrow> string option \<Rightarrow> nat \<Rightarrow> string \<Rightarrow> nat option action" where
  "getAsset E owner repo releaseId assetName =
     await (listAssetsForRelease E owner repo releaseId)
       (\<lambda>as. resolve (find_asset as assetName))"

text \<open>\<open>statSync(assetPath).size\<close>\<close>

definition statSync_size :: "env \<Rightarrow> string \<Rightarrow> nat action" where
  "statSync_size E p w =
     (case file_size E (trace w) p of
        None \<Rightarrow> (Inl (FsError p), record_call (StatSync p) w)
      | Some n \<Rightarrow> (Inr n, record_call (StatSync p) w))"

definition uploadAsset :: "env \<Rightarrow> string \<Rightarrow> string \<Rightarrow> string \<Rightarrow> unit action" where
  "uploadAsset E url name assetPath =
     await (statSync_size E assetPath)
       (\<lambda>contentLength.
          await (uploadReleaseAsset E url name assetPath contentLength) (\<lambda>_. resolve ()))"

definition makeAsset :: "env \<Rightarrow> string \<Rightarrow> string \<Rightarrow> (string \<times> string) action" where
  "makeAsset E otpVersion assetName =
     await (maybePatch E otpVersion) (\<lambda>_.
     await (make E) (\<lambda>_.
     await (archive E assetName) (\<lambda>archivedPath.
     await (sha256 E archivedPath) (\<lambda>sha256Path.
     resolve (archivedPath, sha256Path)))))"

text \<open>
  \<open>uploadAssets\<close>: the callback of \<open>assetPaths.map\<close> calls \<open>uploadAsset\<close> and returns
  nothing, so \<open>Promise.all\<close> receives an array of \<open>undefined\<close> and the promise of each
  upload is dropped. The outcome of a dropped promise goes to \<open>floating\<close>; the effect of
  the upload on the registry is placed at the call, although it lands later.
\<close>

definition drop_promise :: "unit action \<Rightarrow> world \<Rightarrow> world" where
  "drop_promise m w = (case m w of (r, w') \<Rightarrow> w'\<lparr>floating := floating w' @ [r]\<rparr>)"

definition uploadAssets :: "env \<Rightarrow> string \<Rightarrow> string list \<Rightarrow> unit action" where
  "uploadAssets E uploadUrl assetPaths w =
     (Inr (),
      fold (\<lambda>assetPath.
              let assetName = path_basename assetPath
              in drop_promise (uploadAsset E uploadUrl assetName assetPath))
        assetPaths w)"

section \<open>The orchestrator\<close>

definition getAssetName :: "env \<Rightarrow> string action" where
  "getAssetName E =
     await (exec E ''uname'' [''-s'', ''-r''] None)
       (\<lambda>out. let buffer = concat (stdlines out)
              in resolve (replace_first CHR '' '' CHR ''-'' (toLowerCase (trim buffer)) @ ''.tar.gz''))"

definition getOTPVersions :: "env \<Rightarrow> string \<Rightarrow> string list action" where
  "getOTPVersions E pattern =
     await (exec E ''git'' [''tag'', ''--list'', pattern] None) (\<lambda>out. resolve (stdlines out))"

text \<open>\<open>setup\<close> of the source.\<close>

definition setupVersion :: "env \<Rightarrow> string \<Rightarrow> unit action" where
  "setupVersion E otpVersion =
     await (exec E ''git'' [''reset'', ''--hard'', ''--quiet''] None) (\<lambda>_.
     await (exec E ''git'' [''checkout'', ''--quiet'', otpVersion] None) (\<lambda>_.
     await (exec E ''git'' [''clean'', ''-dfqx''] None) (\<lambda>_. resolve ())))"

definition write_log :: "log_entry \<Rightarrow> world \<Rightarrow> world" where
  "write_log l w = w\<lparr>logs := logs w @ [l]\<rparr>"

text \<open>\<open>!assetId\<close>: true for \<open>undefined\<close> and for the number 0.\<close>

definition not_assetId :: "nat option \<Rightarrow> bool" where
  "not_assetId assetId \<longleftrightarrow> (case assetId of None \<Rightarrow> True | Some i \<Rightarrow> i = 0)"

text \<open>The body of the inner \<open>try\<close> of \<open>run\<close>.\<close>

definition process_version :: "env \<Rightarrow> string \<Rightarrow> string option \<Rightarrow> string \<Rightarrow> string \<Rightarrow> unit action" where
  "process_version E owner repo assetName otpVersion =
     await (setupVersion E otpVersion) (\<lambda>_.
     await (getOrCreateRelease E owner repo otpVersion) (\<lambda>(releaseId, uploadUrl).
     await (getAsset E owner repo releaseId assetName) (\<lambda>assetId.
     if not_assetId assetId
     then await (makeAsset E otpVersion assetName) (\<lambda>(archivedPath, sha256Path).
          await (uploadAssets E uploadUrl [archivedPath, sha256Path]) (\<lambda>_. resolve ()))
     else resolve ())))"

text \<open>One turn of the loop: the \<open>info\<close> line, the \<open>try\<close>, and the \<open>catch\<close> that logs
  the error with the version.\<close>

definition loop_body :: "env \<Rightarrow> string \<Rightarrow> string option \<Rightarrow> string \<Rightarrow> string \<Rightarrow> world \<Rightarrow> world" where
  "loop_body E owner repo assetName otpVersion w =
     (case process_version E owner repo assetName otpVersion
             (write_log (Info (''Starting '' @ otpVersion @ ''.'')) w) of
        (Inl e, w') \<Rightarrow> write_log (ErrorLog otpVersion e) w'
      | (Inr _, w') \<Rightarrow> w')"

definition for_versions :: "env \<Rightarrow> string \<Rightarrow> string option \<Rightarrow> string \<Rightarrow> string list \<Rightarrow> world \<Rightarrow> world" where
  "for_versions E owner repo assetName otpVersions w =
     fold (loop_body E owner repo assetName) otpVersions w"

text \<open>What \<open>run\<close> does before the loop. \<open>new GitHub(token)\<close> throws on an empty token;
  \<open>env.GITHUB_REPOSITORY.split("/")\<close> throws when the variable is not set, and leaves
  \<open>repo\<close> undefined when the value has no slash.\<close>

definition before_loop :: "env \<Rightarrow> (string \<times> string option \<times> string \<times> string list) action" where
  "before_loop E =
     (let secretToken = secret_token E
      in if secretToken = [] then reject TokenRequired
         else (case github_repository E of
                 None \<Rightarrow> reject TypeError
               | Some full \<Rightarrow>
                   (let parts = split_on CHR ''/'' full;
                        owner = (case parts of p # _ \<Rightarrow> p | [] \<Rightarrow> []);
                        repo = (case parts of _ # p # _ \<Rightarrow> Some p | _ \<Rightarrow> None)
                    in await (getAssetName E) (\<lambda>assetName.
                       let targetPattern = (if target_pattern E = [] then ''OTP-*''
                                            else target_pattern E)
                       in await (getOTPVersions E targetPattern) (\<lambda>otpVersions.
                          resolve (owner, repo, assetName, otpVersions))))))"

definition run :: "env \<Rightarrow> world \<Rightarrow> world" where
  "run E w =
     (case before_loop E w of
        (Inl e, w') \<Rightarrow> write_log (SetFailed e) w'
      | (Inr (owner, repo, assetName, otpVersions), w') \<Rightarrow>
          for_versions E owner repo assetName otpVersions w')"

section \<open>Kinds of calls and of errors\<close>

fun is_create :: "call \<Rightarrow> bool" where
  "is_create (CreateRelease owner repo tag) = True"
| "is_create c = False"




section \<open>An example host and a fresh process\<close>

text \<open>A host of the given platform on which every command succeeds, \<open>uname\<close> and
  \<open>git tag\<close> print one and two lines, \<open>shasum\<close> prints a digest and a file name, the
  release directory holds one subdirectory and one file, and the registry serves every
  request; and the state of a process that has made no call yet.\<close>

fun host_stdout :: "call list \<Rightarrow> call \<Rightarrow> string" where
  "host_stdout tr (Exec cmd args inp d) =
     (if cmd = ''uname'' then ''Linux 5.4.0\<newline>''
      else if cmd = ''git'' \<and> take 1 args = [''tag'']
      then ''OTP-21.0\<newline>OTP-21.1\<newline>''
      else if cmd = ''shasum'' then ''0a1b  x\<newline>''
      else [])"
| "host_stdout tr c = []"

definition host :: "string \<Rightarrow> env" where
  "host plat =
     \<lparr>platform = plat, cpu_count = 2, secret_token = ''t'', target_pattern = [],
      github_repository = Some ''niku/otp-kuroko'',
      exec_ok = (\<lambda>tr c. True), exec_stdout = host_stdout,
      dir_entries = (\<lambda>tr d. Some [(''otp'', True), (''README'', False)]),
      file_size = (\<lambda>tr p. Some 1), write_ok = (\<lambda>tr p. True), chdir_ok = (\<lambda>tr d. True),
      api_fault = (\<lambda>tr c. None), upload_url_of = (\<lambda>i. ''u'' @ string_of_nat i)\<rparr>"

definition fresh :: world where
  "fresh =
     \<lparr>cwd = ''/w'', trace = [], logs = [], releases = (\<lambda>k. None), assets = (\<lambda>i. []),
      next_id = 1, floating = []\<rparr>"

text \<open>The same host with a registry that answers every upload with status 500.\<close>

fun is_upload :: "call \<Rightarrow> bool" where
  "is_upload (UploadReleaseAsset url name p n) = True"
| "is_upload c = False"

definition upload_rejecting :: "string \<Rightarrow> env" where
  "upload_rejecting plat =
     (host plat)\<lparr>api_fault := (\<lambda>tr c. if is_upload c then Some 500 else None)\<rparr>"

text \<open>The same host where \<open>tar\<close> fails the first time it is called.\<close>

fun is_tar :: "call \<Rightarrow> bool" where
  "is_tar (Exec cmd args inp d) = (cmd = ''tar'')"
| "is_tar c = False"

definition tar_failing_once :: "string \<Rightarrow> env" where
  "tar_failing_once plat =
     (host plat)\<lparr>exec_ok := (\<lambda>tr c. \<not> (is_tar c \<and> \<not> list_ex is_tar tr))\<rparr>"

text \<open>The same host where \<open>shasum\<close> prints its line without the line feed.\<close>

definition unterminated :: "string \<Rightarrow> env" where
  "unterminated plat = (host plat)\<lparr>exec_stdout := (\<lambda>tr c. ''0a1b  x'')\<rparr>"

text \<open>The same host where no command prints anything.\<close>

definition silent :: "string \<Rightarrow> env" where
  "silent plat = (host plat)\<lparr>exec_stdout := (\<lambda>tr c. [])\<rparr>"


section \<open>Properties\<close>


lemma await_resolve: "await (resolve x) f = f x"
  by (rule ext) (simp add: await_def resolve_def)

lemma await_resolve_unit: "await m (\<lambda>_. resolve ()) = (m :: unit action)"
  by (rule ext) (auto simp: await_def resolve_def split: prod.splits sum.splits)

lemma await_assoc: "await (await m f) g = await m (\<lambda>x. await (f x) g)"
  by (rule ext) (auto simp: await_def split: prod.splits sum.splits)

lemma maybePatch_refines:
  "maybePatch E v = apply_patches E (selectPatches (platform E) (parse_version v))"
  by (simp add: maybePatch_def selectPatches_def patch_rules_def maybePatchDarwin_def
      maybePatchCatalina_def maybePatchAll_def applyWxPtrPatch_def
      applyCatarinaNoWeakImportsPatch_def applyZlibPatch_def Let_def
      await_resolve await_resolve_unit await_assoc)

lemma trace_exec: "trace (snd (exec E cmd args inp w)) = trace w @ [Exec cmd args inp (cwd w)]"
  by (simp add: exec_def record_call_def Let_def)

lemma cwd_exec: "cwd (snd (exec E cmd args inp w)) = cwd w"
  by (simp add: exec_def record_call_def Let_def)

lemma apply_patches_trace:
  "\<exists>qs. prefix qs ps \<and> (fst (apply_patches E ps w) = Inr () \<longrightarrow> qs = ps) \<and>
     trace (snd (apply_patches E ps w)) =
       trace w @ map (\<lambda>p. Exec ''patch'' [''-p1'', ''--quiet''] (Some p) (cwd w)) qs"
proof (induction ps arbitrary: w)
  case Nil
  show ?case by (simp add: resolve_def)
next
  case (Cons p ps)
  let ?c = "Exec ''patch'' [''-p1'', ''--quiet''] (Some p) (cwd w)"
  show ?case
  proof (cases "exec_ok E (trace w) ?c")
    case False
    then have "apply_patches E (p # ps) w = (Inl (ExecError ''patch''), record_call ?c w)"
      by (simp add: await_def exec_def Let_def)
    then have "prefix [p] (p # ps) \<and> (fst (apply_patches E (p # ps) w) = Inr () \<longrightarrow> [p] = p # ps) \<and>
      trace (snd (apply_patches E (p # ps) w)) =
        trace w @ map (\<lambda>p. Exec ''patch'' [''-p1'', ''--quiet''] (Some p) (cwd w)) [p]"
      by (simp add: record_call_def)
    then show ?thesis by blast
  next
    case True
    let ?w = "record_call ?c w"
    from True have step: "apply_patches E (p # ps) w = apply_patches E ps ?w"
      by (simp add: await_def exec_def Let_def)
    from Cons.IH[of ?w] obtain qs where qs: "prefix qs ps"
      "fst (apply_patches E ps ?w) = Inr () \<longrightarrow> qs = ps"
      "trace (snd (apply_patches E ps ?w)) =
         trace ?w @ map (\<lambda>p. Exec ''patch'' [''-p1'', ''--quiet''] (Some p) (cwd ?w)) qs"
      by blast
    have "cwd ?w = cwd w" by (simp add: record_call_def)
    with qs(3) have tr: "trace (snd (apply_patches E (p # ps) w)) =
        trace w @ map (\<lambda>p. Exec ''patch'' [''-p1'', ''--quiet''] (Some p) (cwd w)) (p # qs)"
      by (simp add: step record_call_def del: apply_patches.simps)
    have "prefix (p # qs) (p # ps)" using qs(1) by simp
    moreover have "fst (apply_patches E (p # ps) w) = Inr () \<longrightarrow> p # qs = p # ps"
      using qs(2) by (simp add: step del: apply_patches.simps)
    ultimately show ?thesis using tr by blast
  qed
qed

lemma applied_patches_map:
  "applied_patches (map (\<lambda>p. Exec ''patch'' args (Some p) d) qs) = qs"
  by (induction qs) (simp_all add: applied_patches_def)


lemma calls_since_apply_patches:
  "\<exists>qs. prefix qs ps \<and> (fst (apply_patches E ps w) = Inr () \<longrightarrow> qs = ps) \<and>
     applied_patches (calls_since w (snd (apply_patches E ps w))) = qs"
proof -
  from apply_patches_trace[of ps E w] obtain qs where qs: "prefix qs ps"
    "fst (apply_patches E ps w) = Inr () \<longrightarrow> qs = ps"
    "trace (snd (apply_patches E ps w)) =
       trace w @ map (\<lambda>p. Exec ''patch'' [''-p1'', ''--quiet''] (Some p) (cwd w)) qs"
    by blast
  have "applied_patches (calls_since w (snd (apply_patches E ps w))) = qs"
    by (simp add: calls_since_def qs(3) applied_patches_map)
  with qs(1,2) show ?thesis by blast
qed

lemma apply_patches_ok:
  "\<forall>tr c. exec_ok E tr c \<Longrightarrow> fst (apply_patches E ps w) = Inr ()"
  by (induction ps arbitrary: w) (simp_all add: resolve_def await_def exec_def Let_def)

lemma apply_patches_result:
  "fst (apply_patches E ps w) = Inr () \<or> fst (apply_patches E ps w) = Inl (ExecError ''patch'')"
  by (induction ps arbitrary: w) (simp_all add: resolve_def await_def exec_def Let_def)

lemmas eval_parse = parse_version_def strip_OTP_def parseInt_def isStrWhiteSpace_def
  isDigit_def digits_value_def major_of_def minor_of_def rest_of_def js_nth_def

lemmas eval_rules = selectPatches_def patch_rules_def catalina_cond_def
  catalina_rest_bound_def js_or_def

lemmas eval_action = await_def resolve_def reject_def exec_def record_call_def Let_def
  calls_since_def applied_patches_def

lemma select_22_3_1:
  "selectPatches ''darwin'' (parse_version ''OTP-22.3.1'') = [CatarinaNoWeakImportsPatch]"
  by (simp add: eval_parse eval_rules)

text \<open>
  C1. On darwin, for the version 22.3.1 the Catalina rule of \<open>maybePatch\<close> matches and
  its patch is piped into \<open>patch\<close>: the first comparison \<open>19 < major && major < 23\<close>
  holds for every 22.x, which leaves the bound on \<open>rest[0]\<close> without effect. The older
  \<open>maybeApplyPatch\<close> makes no call for 22.3.1. For 22.3.0 both apply the patch, for 23.0
  neither does, on any platform.
\<close>

theorem C1_catalina_rule_at_22_3_1:
  "applied_patches (calls_since w (snd (maybePatch (E\<lparr>platform := ''darwin''\<rparr>) ''OTP-22.3.1'' w)))
     = [CatarinaNoWeakImportsPatch]
   \<and> calls_since w (snd (maybeApplyPatch (E\<lparr>platform := ''darwin''\<rparr>) ''OTP-22.3.1'' w)) = []
   \<and> catalina_cond (Num 22) (Num 3) [Num 1]
   \<and> catalina_cond (Num 22) (Num 3) [Num 0]
   \<and> \<not> catalina_cond (Num 23) (Num 0) []
   \<and> maybeApplyPatch_skips ''darwin'' (Num 22) (Num 3) [Num 1]
   \<and> \<not> maybeApplyPatch_skips ''darwin'' (Num 22) (Num 3) [Num 0]
   \<and> maybeApplyPatch_skips plat (Num 23) (Num 0) []"
proof -
  have a: "applied_patches (calls_since w (snd (maybePatch (E\<lparr>platform := ''darwin''\<rparr>) ''OTP-22.3.1'' w)))
     = [CatarinaNoWeakImportsPatch]"
    by (simp add: maybePatch_refines select_22_3_1 eval_action)
  have b: "calls_since w (snd (maybeApplyPatch (E\<lparr>platform := ''darwin''\<rparr>) ''OTP-22.3.1'' w)) = []"
    by (simp add: maybeApplyPatch_def maybeApplyPatch_skips_def eval_parse resolve_def
        calls_since_def)
  have c: "catalina_cond (Num 22) (Num 3) [Num 1]" "catalina_cond (Num 22) (Num 3) [Num 0]"
    "\<not> catalina_cond (Num 23) (Num 0) []"
    by (simp_all add: catalina_cond_def catalina_rest_bound_def js_or_def js_nth_def)
  have d: "maybeApplyPatch_skips ''darwin'' (Num 22) (Num 3) [Num 1]"
    "\<not> maybeApplyPatch_skips ''darwin'' (Num 22) (Num 3) [Num 0]"
    "maybeApplyPatch_skips plat (Num 23) (Num 0) []"
    by (simp_all add: maybeApplyPatch_skips_def js_nth_def)
  from a b c d show ?thesis by blast
qed

theorem C1_catalina_rule_at_22_3_1_witness:
  "applied_patches (calls_since fresh (snd (maybePatch (host ''darwin'') ''OTP-22.3.1'' fresh)))
     = [CatarinaNoWeakImportsPatch]
   \<and> calls_since fresh (snd (maybeApplyPatch (host ''darwin'') ''OTP-22.3.1'' fresh)) = []"
  using C1_catalina_rule_at_22_3_1 [of fresh "host ''darwin''" "''linux''"]
  by (simp add: host_def)


lemma select_darwin_17_19:
  assumes "js_le (Num 17) (major_of v)" "js_le (major_of v) (Num 19)"
  shows "selectPatches ''darwin'' v =
     WxPtrPatch # (if catalina_cond (major_of v) (minor_of v) (rest_of v)
                   then [CatarinaNoWeakImportsPatch] else []) @ [ZlibPatch]"
  using assms by (simp add: selectPatches_def patch_rules_def)

text \<open>
  C5. \<open>maybePatch\<close> is the run of the rule table: it pipes into \<open>patch\<close> the patches of
  all rules that match the platform and the parsed version, in the declared order (the
  two darwin rules, then the cross-platform rule), stopping only when \<open>patch\<close> rejects
  one. When no call is rejected the patches applied are exactly the selected ones, and
  on a host where every command succeeds none is rejected. On darwin with
  \<open>17 \<le> major \<le> 19\<close> the selection starts with the wx pointer patch and ends with the
  zlib patch.
\<close>

theorem C5_all_matching_rules_in_order:
  "maybePatch E v = apply_patches E (selectPatches (platform E) (parse_version v))
   \<and> prefix (applied_patches (calls_since w (snd (maybePatch E v w))))
        (selectPatches (platform E) (parse_version v))
   \<and> (fst (maybePatch E v w) = Inr () \<longrightarrow>
        applied_patches (calls_since w (snd (maybePatch E v w)))
          = selectPatches (platform E) (parse_version v))
   \<and> ((\<forall>tr c. exec_ok E tr c) \<longrightarrow> fst (maybePatch E v w) = Inr ())
   \<and> (platform E = ''darwin'' \<and> js_le (Num 17) (major_of (parse_version v))
        \<and> js_le (major_of (parse_version v)) (Num 19) \<longrightarrow>
        selectPatches (platform E) (parse_version v) =
          WxPtrPatch #
          (if catalina_cond (major_of (parse_version v)) (minor_of (parse_version v))
                (rest_of (parse_version v))
           then [CatarinaNoWeakImportsPatch] else []) @ [ZlibPatch])"
proof -
  let ?ps = "selectPatches (platform E) (parse_version v)"
  have r: "maybePatch E v = apply_patches E ?ps" by (rule maybePatch_refines)
  from calls_since_apply_patches[of ?ps E w] obtain qs where qs: "prefix qs ?ps"
    "fst (apply_patches E ?ps w) = Inr () \<longrightarrow> qs = ?ps"
    "applied_patches (calls_since w (snd (apply_patches E ?ps w))) = qs"
    by blast
  have p: "prefix (applied_patches (calls_since w (snd (maybePatch E v w)))) ?ps"
    using qs(1,3) by (simp add: r)
  have e: "fst (maybePatch E v w) = Inr () \<longrightarrow>
        applied_patches (calls_since w (snd (maybePatch E v w))) = ?ps"
    using qs(2,3) by (simp add: r)
  have k: "(\<forall>tr c. exec_ok E tr c) \<longrightarrow> fst (maybePatch E v w) = Inr ()"
    using apply_patches_ok[of E ?ps w] by (simp add: r)
  have d: "platform E = ''darwin'' \<and> js_le (Num 17) (major_of (parse_version v))
        \<and> js_le (major_of (parse_version v)) (Num 19) \<longrightarrow>
        ?ps = WxPtrPatch #
          (if catalina_cond (major_of (parse_version v)) (minor_of (parse_version v))
                (rest_of (parse_version v))
           then [CatarinaNoWeakImportsPatch] else []) @ [ZlibPatch]"
    using select_darwin_17_19[of "parse_version v"] by auto
  from r p e k d show ?thesis by blast
qed

lemma host_exec_ok: "exec_ok (host plat) tr c"
  by (simp add: host_def)

lemma host_platform: "platform (host plat) = plat"
  by (simp add: host_def)

lemma parse_19_2: "parse_version ''OTP-19.2'' = [Num 19, Num 2]"
  by (simp add: eval_parse)

theorem C5_all_matching_rules_in_order_witness:
  "fst (maybePatch (host ''darwin'') ''OTP-19.2'' fresh) = Inr ()
   \<and> applied_patches (calls_since fresh (snd (maybePatch (host ''darwin'') ''OTP-19.2'' fresh)))
       = [WxPtrPatch, CatarinaNoWeakImportsPatch, ZlibPatch]"
proof -
  note t = C5_all_matching_rules_in_order [of "host ''darwin''" "''OTP-19.2''" fresh]
  have s: "selectPatches ''darwin'' [Num 19, Num 2]
      = [WxPtrPatch, CatarinaNoWeakImportsPatch, ZlibPatch]"
    by (simp add: eval_rules major_of_def minor_of_def rest_of_def js_nth_def)
  have ok: "\<forall>tr c. exec_ok (host ''darwin'') tr c" by (simp add: host_exec_ok)
  from t ok have r: "fst (maybePatch (host ''darwin'') ''OTP-19.2'' fresh) = Inr ()" by blast
  from t r have "applied_patches (calls_since fresh (snd (maybePatch (host ''darwin'') ''OTP-19.2'' fresh)))
      = selectPatches (platform (host ''darwin'')) (parse_version ''OTP-19.2'')" by blast
  then show ?thesis using r by (simp add: host_platform parse_19_2 s)
qed

lemma parseInt_no_digit:
  assumes "\<forall>c\<in>set s. \<not> isDigit c"
  shows "parseInt s = NaN"
proof -
  let ?s1 = "dropWhile isStrWhiteSpace s"
  let ?s2 = "case ?s1 of c # r \<Rightarrow> (if c = CHR ''-'' \<or> c = CHR ''+'' then r else ?s1) | [] \<Rightarrow> ?s1"
  have "set ?s1 \<subseteq> set s" by (rule set_dropWhileD[THEN subsetI])
  moreover have "set ?s2 \<subseteq> set ?s1" by (auto split: list.splits)
  ultimately have "\<forall>c\<in>set ?s2. \<not> isDigit c" using assms by blast
  then have "takeWhile isDigit ?s2 = []" by (cases ?s2) auto
  then show ?thesis by (simp add: parseInt_def Let_def)
qed

lemma takeWhile_isDigit_Nil: "takeWhile isDigit x = [] \<longleftrightarrow> \<not> starts_with_digit x"
  by (cases x) simp_all

lemma without_sign_case:
  "(case x of c # r \<Rightarrow> (if c = CHR ''-'' \<or> c = CHR ''+'' then r else x) | [] \<Rightarrow> x)
     = without_sign x"
  by (cases x) simp_all

lemma parseInt_tight: "parseInt s = NaN \<longleftrightarrow> \<not> numeric_component s"
  by (simp add: parseInt_def Let_def without_sign_case takeWhile_isDigit_Nil
      numeric_component_def)

lemma select_major_nan:
  "major_of v = NaN \<Longrightarrow> selectPatches plat v = []"
  by (simp add: selectPatches_def patch_rules_def catalina_cond_def)

text \<open>
  C2. A version component parses to not-a-number exactly when it is not numeric, that
  is when it does not start, after leading white space and at most one sign, with a
  decimal digit (so \<open>v19\<close>, \<open>R16B\<close> and \<open>x\<close> do, and \<open>3rc1\<close> parses to 3). Neither parsing
  nor the rules raise an error: \<open>maybePatch\<close> succeeds or fails with the rejection of a
  \<open>patch\<close> call. When \<open>major\<close> is not-a-number every rule is skipped, on every
  platform. A not-a-number \<open>minor\<close> makes its comparisons false, so the Catalina rule
  then matches exactly when \<open>19 < major < 23\<close>. The bound on \<open>rest[0]\<close> is taken on
  \<open>rest[0] || 0\<close>, which reads a not-a-number (or missing) \<open>rest[0]\<close> as 0: that
  comparison is true.
\<close>

theorem C2_not_a_number_components:
  "((\<forall>c\<in>set s. \<not> isDigit c) \<longrightarrow> parseInt s = NaN)
   \<and> (fst (maybePatch E v w) = Inr () \<or> fst (maybePatch E v w) = Inl (ExecError ''patch''))
   \<and> (major_of (parse_version v) = NaN \<longrightarrow> maybePatch E v w = (Inr (), w))
   \<and> (catalina_cond major NaN rest \<longleftrightarrow> js_lt (Num 19) major \<and> js_lt major (Num 23))
   \<and> catalina_rest_bound (NaN # rest)
   \<and> catalina_rest_bound []
   \<and> parseInt ''3rc1'' = Num 3
   \<and> (parseInt s = NaN \<longleftrightarrow> \<not> numeric_component s)
   \<and> parseInt ''v19'' = NaN \<and> parseInt ''R16B'' = NaN \<and> parseInt [] = NaN
   \<and> parse_version ''OTP-R16B.3'' = [NaN, Num 3]"
proof -
  have a: "(\<forall>c\<in>set s. \<not> isDigit c) \<longrightarrow> parseInt s = NaN"
    using parseInt_no_digit by blast
  have b: "fst (maybePatch E v w) = Inr () \<or> fst (maybePatch E v w) = Inl (ExecError ''patch'')"
    using apply_patches_result by (simp add: maybePatch_refines)
  have c: "major_of (parse_version v) = NaN \<longrightarrow> maybePatch E v w = (Inr (), w)"
    by (simp add: maybePatch_refines select_major_nan resolve_def)
  have d: "catalina_cond major NaN rest \<longleftrightarrow> js_lt (Num 19) major \<and> js_lt major (Num 23)"
    by (simp add: catalina_cond_def)
  have e: "catalina_rest_bound (NaN # rest)" "catalina_rest_bound []"
    by (simp_all add: catalina_rest_bound_def js_or_def js_nth_def)
  have f: "parseInt ''3rc1'' = Num 3"
    by (simp add: eval_parse)
  have g: "parseInt ''v19'' = NaN" "parseInt ''R16B'' = NaN" "parseInt [] = NaN"
    "parse_version ''OTP-R16B.3'' = [NaN, Num 3]"
    by (simp_all add: eval_parse)
  from a b c d e f g parseInt_tight[of s] show ?thesis by blast
qed

theorem C2_not_a_number_components_witness:
  "parseInt ''x'' = NaN
   \<and> maybePatch (host ''darwin'') ''OTP-x.1'' fresh = (Inr (), fresh)
   \<and> \<not> catalina_cond (Num 19) NaN []
   \<and> \<not> numeric_component ''x''"
  using C2_not_a_number_components [of "''x''" "host ''darwin''" "''OTP-x.1''" fresh "Num 19" "[]"]
  by (simp add: eval_parse)

theorem C2_counterexample:
  "parse_version ''OTP-22.3.x'' = [Num 22, Num 3, NaN]
   \<and> catalina_rest_bound (rest_of (parse_version ''OTP-22.3.x''))
   \<and> applied_patches (calls_since fresh (snd (maybePatch (host ''darwin'') ''OTP-22.3.x'' fresh)))
       = [CatarinaNoWeakImportsPatch]
   \<and> parse_version ''OTP-20.x'' = [Num 20, NaN]
   \<and> applied_patches (calls_since fresh (snd (maybePatch (host ''darwin'') ''OTP-20.x'' fresh)))
       = [CatarinaNoWeakImportsPatch]"
proof -
  have p: "parse_version ''OTP-22.3.x'' = [Num 22, Num 3, NaN]"
    "parse_version ''OTP-20.x'' = [Num 20, NaN]"
    by (simp_all add: eval_parse)
  have b: "catalina_rest_bound (rest_of (parse_version ''OTP-22.3.x''))"
    by (simp add: p rest_of_def catalina_rest_bound_def js_or_def js_nth_def)
  have s: "selectPatches ''darwin'' [Num 22, Num 3, NaN] = [CatarinaNoWeakImportsPatch]"
    "selectPatches ''darwin'' [Num 20, NaN] = [CatarinaNoWeakImportsPatch]"
    by (simp_all add: eval_rules major_of_def minor_of_def rest_of_def js_nth_def)
  have a: "applied_patches (calls_since fresh (snd (maybePatch (host ''darwin'') ''OTP-22.3.x'' fresh)))
       = [CatarinaNoWeakImportsPatch]"
    "applied_patches (calls_since fresh (snd (maybePatch (host ''darwin'') ''OTP-20.x'' fresh)))
       = [CatarinaNoWeakImportsPatch]"
    by (simp_all add: maybePatch_refines host_platform p s eval_action host_exec_ok)
  from p b a show ?thesis by blast
qed


subsection \<open>Uploads\<close>

lemma uploadAsset_logs: "logs (snd (uploadAsset E url n p w)) = logs w"
  by (simp add: uploadAsset_def await_def resolve_def statSync_size_def uploadReleaseAsset_def
      record_call_def Let_def split: option.splits)

lemma uploadAssets_logs: "logs (snd (uploadAssets E url ps w)) = logs w"
proof -
  have "logs (fold (\<lambda>assetPath. drop_promise (uploadAsset E url (path_basename assetPath) assetPath)) ps w)
      = logs w"
  proof (induction ps arbitrary: w)
    case Nil
    show ?case by simp
  next
    case (Cons p ps)
    have "logs (drop_promise (uploadAsset E url (path_basename p) p) w) = logs w"
      using uploadAsset_logs[of E url "path_basename p" p w]
      by (cases "uploadAsset E url (path_basename p) p w") (simp add: drop_promise_def)
    then show ?case using Cons.IH by simp
  qed
  then show ?thesis by (simp add: uploadAssets_def Let_def)
qed

lemma uploadAsset_rejected:
  assumes "file_size E = (\<lambda>tr p. Some n)" "api_fault E = (\<lambda>tr c. Some st)"
  shows "uploadAsset E url name p w =
     (Inl (HttpError st),
       w\<lparr>trace := trace w @ [StatSync p, UploadReleaseAsset url name p n]\<rparr>)"
  by (simp add: uploadAsset_def await_def statSync_size_def uploadReleaseAsset_def
      record_call_def Let_def assms)

text \<open>
  C4. \<open>uploadAssets\<close> starts the upload of each file under its base name, but it
  resolves whatever becomes of the uploads and writes nothing to the log: when the
  registry rejects both uploads, the result is still success and the two rejections are
  outcomes of promises that nobody awaits.
\<close>

theorem C4_upload_failure_not_propagated:
  "fst (uploadAssets E url ps w) = Inr ()
   \<and> logs (snd (uploadAssets E url ps w)) = logs w
   \<and> snd (uploadAssets (E\<lparr>file_size := (\<lambda>tr p. Some n), api_fault := (\<lambda>tr c. Some st)\<rparr>)
            url [a, b] w)
       = w\<lparr>trace := trace w @
              [StatSync a, UploadReleaseAsset url (path_basename a) a n,
               StatSync b, UploadReleaseAsset url (path_basename b) b n],
            floating := floating w @ [Inl (HttpError st), Inl (HttpError st)]\<rparr>"
proof -
  let ?E = "E\<lparr>file_size := (\<lambda>tr p. Some n), api_fault := (\<lambda>tr c. Some st)\<rparr>"
  have f: "file_size ?E = (\<lambda>tr p. Some n)" "api_fault ?E = (\<lambda>tr c. Some st)" by simp_all
  have 1: "fst (uploadAssets E url ps w) = Inr ()" by (simp add: uploadAssets_def)
  have 3: "snd (uploadAssets ?E url [a, b] w)
       = w\<lparr>trace := trace w @
              [StatSync a, UploadReleaseAsset url (path_basename a) a n,
               StatSync b, UploadReleaseAsset url (path_basename b) b n],
            floating := floating w @ [Inl (HttpError st), Inl (HttpError st)]\<rparr>"
    by (simp add: uploadAssets_def drop_promise_def uploadAsset_rejected[OF f] Let_def)
  from 1 uploadAssets_logs 3 show ?thesis by blast
qed

subsection \<open>Releases\<close>

lemmas registry_defs = getOrCreateRelease_def getRelease_def createRelease_def
  getReleaseByTag_def createReleaseApi_def await_def resolve_def record_call_def Let_def

lemma getOrCreateRelease_stores:
  assumes "getOrCreateRelease E owner repo tag w = (Inr a, w1)"
  shows "releases w1 (owner, repo, tag) = Some a \<and>
     (calls_since w w1 = [GetReleaseByTag owner repo tag] \<or>
      calls_since w w1 = [GetReleaseByTag owner repo tag, CreateRelease owner repo tag])"
  using assms
  by (auto simp: registry_defs calls_since_def split: option.splits if_splits)

lemma getOrCreateRelease_finds:
  assumes "releases w (owner, repo, tag) = Some a"
    "getOrCreateRelease E owner repo tag w = (Inr b, w1)"
  shows "b = a \<and> calls_since w w1 = [GetReleaseByTag owner repo tag]
     \<and> trace w1 = trace w @ [GetReleaseByTag owner repo tag]"
  using assms
  by (auto simp: registry_defs calls_since_def split: option.splits if_splits)


lemma calls_since_trans:
  assumes "trace w1 = trace w @ cs" "trace w2 = trace w1 @ ds"
  shows "calls_since w w2 = cs @ ds"
  using assms by (simp add: calls_since_def)

lemma getOrCreateRelease_trace:
  assumes "getOrCreateRelease E owner repo tag w = (Inr a, w1)"
  shows "trace w1 = trace w @ calls_since w w1"
  using assms
  by (auto simp: registry_defs calls_since_def split: option.splits if_splits)

lemma getOrCreateRelease_404:
  assumes "getReleaseByTag E owner repo tag w = (Inl (HttpError 404), w1)"
  shows "calls_since w (snd (getOrCreateRelease E owner repo tag w)) =
       [GetReleaseByTag owner repo tag, CreateRelease owner repo tag]"
  using assms
  by (auto simp: registry_defs calls_since_def split: option.splits if_splits)

lemma getOrCreateRelease_404_creates:
  assumes "getReleaseByTag E owner repo tag w = (Inl (HttpError 404), w1)"
    "releases w (owner, repo, tag) = None"
    "api_fault E (trace w1) (CreateRelease owner repo tag) = None"
  shows "getOrCreateRelease E owner repo tag w =
     (Inr (next_id w, upload_url_of E (next_id w)),
      w\<lparr>trace := trace w @ [GetReleaseByTag owner repo tag, CreateRelease owner repo tag],
        releases := (releases w)((owner, repo, tag) \<mapsto> (next_id w, upload_url_of E (next_id w))),
        next_id := Suc (next_id w)\<rparr>)"
  using assms
  by (auto simp: registry_defs split: option.splits if_splits)

lemma getOrCreateRelease_404_result:
  assumes "getReleaseByTag E owner repo tag w = (Inl (HttpError 404), w1)"
    "getOrCreateRelease E owner repo tag w = (Inr c, w4)"
  shows "c = (next_id w, upload_url_of E (next_id w))
     \<and> releases w (owner, repo, tag) = None
     \<and> releases w4 = (releases w)((owner, repo, tag) \<mapsto> c)
     \<and> next_id w4 = Suc (next_id w)"
  using assms
  by (auto simp: registry_defs split: option.splits if_splits)

lemma getOrCreateRelease_found:
  assumes "getReleaseByTag E owner repo tag w = (Inr r, w1)"
  shows "getOrCreateRelease E owner repo tag w = (Inr r, w1)
     \<and> calls_since w w1 = [GetReleaseByTag owner repo tag]"
  using assms
  by (auto simp: registry_defs calls_since_def split: option.splits if_splits)

lemma getOrCreateRelease_calls:
  assumes "getOrCreateRelease E owner repo tag w = (Inr a, w1)"
  shows "calls_since w w1 =
     (if releases w (owner, repo, tag) = None
      then [GetReleaseByTag owner repo tag, CreateRelease owner repo tag]
      else [GetReleaseByTag owner repo tag])"
  using assms
  by (auto simp: registry_defs calls_since_def split: option.splits if_splits)

text \<open>
  C6. A 404 answer to the lookup makes \<open>getOrCreateRelease\<close> go on to create the
  release: the creation call follows the lookup, and when the registry serves it the
  result is the new release, stored under the tag with the next id. A lookup that
  finds the release returns it without a creation call. Any other error of the lookup
  is thrown again, wrapped as unexpected, and nothing but the lookup has been called.
  Two calls in a row for the same owner, repository and tag that both return a release
  return the same one, and between them they issue at most one creation call: exactly
  one, in the first call, when the registry had no release of the tag, and none when
  it had.
\<close>

theorem C6_get_or_create_release:
  "(getReleaseByTag E owner repo tag w = (Inl (HttpError 404), w1) \<longrightarrow>
      getOrCreateRelease E owner repo tag w = createRelease E owner repo tag w1)
   \<and> (getReleaseByTag E owner repo tag w = (Inl e, w1) \<and> status_of e \<noteq> Some 404 \<longrightarrow>
      getOrCreateRelease E owner repo tag w = (Inl (UnexpectedError e), w1)
      \<and> calls_since w w1 = [GetReleaseByTag owner repo tag])
   \<and> (getOrCreateRelease E owner repo tag w = (Inr a, w2)
       \<and> getOrCreateRelease E owner repo tag w2 = (Inr b, w3) \<longrightarrow>
      fst a = fst b \<and> a = b \<and> length (filter is_create (calls_since w w3)) \<le> 1)
   \<and> (getReleaseByTag E owner repo tag w = (Inl (HttpError 404), w1) \<longrightarrow>
      calls_since w (snd (getOrCreateRelease E owner repo tag w)) =
        [GetReleaseByTag owner repo tag, CreateRelease owner repo tag])
   \<and> (getReleaseByTag E owner repo tag w = (Inl (HttpError 404), w1)
       \<and> releases w (owner, repo, tag) = None
       \<and> api_fault E (trace w1) (CreateRelease owner repo tag) = None \<longrightarrow>
      getOrCreateRelease E owner repo tag w =
        (Inr (next_id w, upload_url_of E (next_id w)),
         w\<lparr>trace := trace w @ [GetReleaseByTag owner repo tag, CreateRelease owner repo tag],
           releases := (releases w)((owner, repo, tag) \<mapsto>
                          (next_id w, upload_url_of E (next_id w))),
           next_id := Suc (next_id w)\<rparr>))
   \<and> (getReleaseByTag E owner repo tag w = (Inl (HttpError 404), w1)
       \<and> getOrCreateRelease E owner repo tag w = (Inr c, w4) \<longrightarrow>
      c = (next_id w, upload_url_of E (next_id w))
      \<and> releases w (owner, repo, tag) = None
      \<and> releases w4 = (releases w)((owner, repo, tag) \<mapsto> c)
      \<and> next_id w4 = Suc (next_id w))
   \<and> (getReleaseByTag E owner repo tag w = (Inr r, w1) \<longrightarrow>
      getOrCreateRelease E owner repo tag w = (Inr r, w1)
      \<and> calls_since w w1 = [GetReleaseByTag owner repo tag])
   \<and> (getOrCreateRelease E owner repo tag w = (Inr a, w2)
       \<and> getOrCreateRelease E owner repo tag w2 = (Inr b, w3) \<longrightarrow>
      releases w2 (owner, repo, tag) = Some a
      \<and> calls_since w w3 =
         (if releases w (owner, repo, tag) = None
          then [GetReleaseByTag owner repo tag, CreateRelease owner repo tag,
                GetReleaseByTag owner repo tag]
          else [GetReleaseByTag owner repo tag, GetReleaseByTag owner repo tag]))"
proof -
  have 1: "getReleaseByTag E owner repo tag w = (Inl (HttpError 404), w1) \<longrightarrow>
      getOrCreateRelease E owner repo tag w = createRelease E owner repo tag w1"
    by (simp add: getOrCreateRelease_def getRelease_def await_def resolve_def)
  have 2: "getReleaseByTag E owner repo tag w = (Inl e, w1) \<and> status_of e \<noteq> Some 404 \<longrightarrow>
      getOrCreateRelease E owner repo tag w = (Inl (UnexpectedError e), w1)
      \<and> calls_since w w1 = [GetReleaseByTag owner repo tag]"
  proof
    assume h: "getReleaseByTag E owner repo tag w = (Inl e, w1) \<and> status_of e \<noteq> Some 404"
    then have "getOrCreateRelease E owner repo tag w = (Inl (UnexpectedError e), w1)"
      by (simp add: getOrCreateRelease_def getRelease_def await_def)
    moreover from h have "trace w1 = trace w @ [GetReleaseByTag owner repo tag]"
      by (auto simp: getReleaseByTag_def record_call_def Let_def split: option.splits if_splits)
    ultimately show "getOrCreateRelease E owner repo tag w = (Inl (UnexpectedError e), w1)
      \<and> calls_since w w1 = [GetReleaseByTag owner repo tag]"
      by (simp add: calls_since_def)
  qed
  have 3: "getOrCreateRelease E owner repo tag w = (Inr a, w2)
       \<and> getOrCreateRelease E owner repo tag w2 = (Inr b, w3) \<longrightarrow>
      fst a = fst b \<and> a = b \<and> length (filter is_create (calls_since w w3)) \<le> 1"
  proof
    assume h: "getOrCreateRelease E owner repo tag w = (Inr a, w2)
       \<and> getOrCreateRelease E owner repo tag w2 = (Inr b, w3)"
    from h getOrCreateRelease_stores[of E owner repo tag w a w2]
    have s: "releases w2 (owner, repo, tag) = Some a"
      and c: "calls_since w w2 = [GetReleaseByTag owner repo tag] \<or>
        calls_since w w2 = [GetReleaseByTag owner repo tag, CreateRelease owner repo tag]"
      by blast+
    from h s getOrCreateRelease_finds[of w2 owner repo tag a E b w3]
    have f: "b = a" "trace w3 = trace w2 @ [GetReleaseByTag owner repo tag]" by blast+
    from h getOrCreateRelease_trace[of E owner repo tag w a w2]
    have t: "trace w2 = trace w @ calls_since w w2" by blast
    have "calls_since w w3 = calls_since w w2 @ [GetReleaseByTag owner repo tag]"
      using calls_since_trans[OF t f(2)] .
    with c have "length (filter is_create (calls_since w w3)) \<le> 1" by auto
    with f(1) show "fst a = fst b \<and> a = b \<and> length (filter is_create (calls_since w w3)) \<le> 1"
      by simp
  qed
  have 4: "getReleaseByTag E owner repo tag w = (Inl (HttpError 404), w1) \<longrightarrow>
      calls_since w (snd (getOrCreateRelease E owner repo tag w)) =
        [GetReleaseByTag owner repo tag, CreateRelease owner repo tag]"
    using getOrCreateRelease_404 by blast
  have 5: "getReleaseByTag E owner repo tag w = (Inl (HttpError 404), w1)
       \<and> releases w (owner, repo, tag) = None
       \<and> api_fault E (trace w1) (CreateRelease owner repo tag) = None \<longrightarrow>
      getOrCreateRelease E owner repo tag w =
        (Inr (next_id w, upload_url_of E (next_id w)),
         w\<lparr>trace := trace w @ [GetReleaseByTag owner repo tag, CreateRelease owner repo tag],
           releases := (releases w)((owner, repo, tag) \<mapsto>
                          (next_id w, upload_url_of E (next_id w))),
           next_id := Suc (next_id w)\<rparr>)"
    using getOrCreateRelease_404_creates by blast
  have 6: "getReleaseByTag E owner repo tag w = (Inl (HttpError 404), w1)
       \<and> getOrCreateRelease E owner repo tag w = (Inr c, w4) \<longrightarrow>
      c = (next_id w, upload_url_of E (next_id w))
      \<and> releases w (owner, repo, tag) = None
      \<and> releases w4 = (releases w)((owner, repo, tag) \<mapsto> c)
      \<and> next_id w4 = Suc (next_id w)"
    using getOrCreateRelease_404_result[of E owner repo tag w w1 c w4] by blast
  have 7: "getReleaseByTag E owner repo tag w = (Inr r, w1) \<longrightarrow>
      getOrCreateRelease E owner repo tag w = (Inr r, w1)
      \<and> calls_since w w1 = [GetReleaseByTag owner repo tag]"
    using getOrCreateRelease_found by blast
  have 8: "getOrCreateRelease E owner repo tag w = (Inr a, w2)
       \<and> getOrCreateRelease E owner repo tag w2 = (Inr b, w3) \<longrightarrow>
      releases w2 (owner, repo, tag) = Some a
      \<and> calls_since w w3 =
         (if releases w (owner, repo, tag) = None
          then [GetReleaseByTag owner repo tag, CreateRelease owner repo tag,
                GetReleaseByTag owner repo tag]
          else [GetReleaseByTag owner repo tag, GetReleaseByTag owner repo tag])"
  proof
    assume h: "getOrCreateRelease E owner repo tag w = (Inr a, w2)
       \<and> getOrCreateRelease E owner repo tag w2 = (Inr b, w3)"
    from h getOrCreateRelease_stores[of E owner repo tag w a w2]
    have s: "releases w2 (owner, repo, tag) = Some a" by blast
    from h s getOrCreateRelease_finds[of w2 owner repo tag a E b w3]
    have f: "trace w3 = trace w2 @ [GetReleaseByTag owner repo tag]" by blast
    from h getOrCreateRelease_trace[of E owner repo tag w a w2]
    have t: "trace w2 = trace w @ calls_since w w2" by blast
    have "calls_since w w3 = calls_since w w2 @ [GetReleaseByTag owner repo tag]"
      using calls_since_trans[OF t f] .
    with h getOrCreateRelease_calls[of E owner repo tag w a w2] s
    show "releases w2 (owner, repo, tag) = Some a
      \<and> calls_since w w3 =
         (if releases w (owner, repo, tag) = None
          then [GetReleaseByTag owner repo tag, CreateRelease owner repo tag,
                GetReleaseByTag owner repo tag]
          else [GetReleaseByTag owner repo tag, GetReleaseByTag owner repo tag])"
      by simp
  qed
  from 1 2 3 4 5 6 7 8 show ?thesis by blast
qed

lemma host_fields:
  "platform (host p) = p" "cpu_count (host p) = 2" "secret_token (host p) = ''t''"
  "target_pattern (host p) = []" "github_repository (host p) = Some ''niku/otp-kuroko''"
  "exec_ok (host p) tr c = True" "exec_stdout (host p) = host_stdout"
  "dir_entries (host p) tr d = Some [(''otp'', True), (''README'', False)]"
  "file_size (host p) tr f = Some 1" "write_ok (host p) tr f = True"
  "chdir_ok (host p) tr d = True" "api_fault (host p) tr c = None"
  "upload_url_of (host p) i = ''u'' @ string_of_nat i"
  by (simp_all add: host_def)

lemma fresh_fields:
  "cwd fresh = ''/w''" "trace fresh = []" "logs fresh = []" "releases fresh k = None"
  "assets fresh i = []" "next_id fresh = 1" "floating fresh = []"
  by (simp_all add: fresh_def)

lemma string_of_nat_1: "string_of_nat (Suc 0) = ''1''"
  by (simp add: string_of_nat.simps char_of_def bit_Suc_0_iff)

lemma getOrCreateRelease_fresh:
  "getOrCreateRelease (host p) ''niku'' (Some ''otp-kuroko'') ''OTP-21.0'' fresh =
     (Inr (1, ''u1''),
      fresh\<lparr>trace := [GetReleaseByTag ''niku'' (Some ''otp-kuroko'') ''OTP-21.0'',
                       CreateRelease ''niku'' (Some ''otp-kuroko'') ''OTP-21.0''],
            releases := [(''niku'', Some ''otp-kuroko'', ''OTP-21.0'') \<mapsto> (1, ''u1'')],
            next_id := 2\<rparr>)"
  by (simp add: registry_defs host_fields fresh_fields string_of_nat_1)
    (simp add: fresh_def)

theorem C6_get_or_create_release_witness:
  "fst (getOrCreateRelease (host ''linux'') ''niku'' (Some ''otp-kuroko'') ''OTP-21.0'' fresh)
     = Inr (1, ''u1'')
   \<and> fst (getOrCreateRelease (host ''linux'') ''niku'' (Some ''otp-kuroko'') ''OTP-21.0''
        (snd (getOrCreateRelease (host ''linux'') ''niku'' (Some ''otp-kuroko'') ''OTP-21.0'' fresh)))
     = Inr (1, ''u1'')
   \<and> length (filter is_create (calls_since fresh
        (snd (getOrCreateRelease (host ''linux'') ''niku'' (Some ''otp-kuroko'') ''OTP-21.0''
        (snd (getOrCreateRelease (host ''linux'') ''niku'' (Some ''otp-kuroko'') ''OTP-21.0'' fresh)))))) \<le> 1
   \<and> calls_since fresh
        (snd (getOrCreateRelease (host ''linux'') ''niku'' (Some ''otp-kuroko'') ''OTP-21.0''
        (snd (getOrCreateRelease (host ''linux'') ''niku'' (Some ''otp-kuroko'') ''OTP-21.0'' fresh))))
       = [GetReleaseByTag ''niku'' (Some ''otp-kuroko'') ''OTP-21.0'',
          CreateRelease ''niku'' (Some ''otp-kuroko'') ''OTP-21.0'',
          GetReleaseByTag ''niku'' (Some ''otp-kuroko'') ''OTP-21.0'']
   \<and> releases (snd (getOrCreateRelease (host ''linux'') ''niku'' (Some ''otp-kuroko'')
          ''OTP-21.0'' fresh)) (''niku'', Some ''otp-kuroko'', ''OTP-21.0'') = Some (1, ''u1'')"
proof -
  let ?g = "getOrCreateRelease (host ''linux'') ''niku'' (Some ''otp-kuroko'') ''OTP-21.0''"
  have a: "fst (?g fresh) = Inr (1, ''u1'')"
    by (simp add: getOrCreateRelease_fresh)
  have b: "fst (?g (snd (?g fresh))) = Inr (1, ''u1'')"
    by (simp add: getOrCreateRelease_fresh) (simp add: registry_defs host_fields fresh_fields)
  have 1: "?g fresh = (Inr (1, ''u1''), snd (?g fresh))"
    using a by (metis prod.collapse)
  have 2: "?g (snd (?g fresh)) = (Inr (1, ''u1''), snd (?g (snd (?g fresh))))"
    using b by (metis prod.collapse)
  note t = C6_get_or_create_release
    [of "host ''linux''" "''niku''" "Some ''otp-kuroko''" "''OTP-21.0''" fresh
        "snd (?g fresh)" "HttpError 500" "(1, ''u1'')" "snd (?g fresh)" "(1, ''u1'')"
        "snd (?g (snd (?g fresh)))"]
  from t 1 2
  have c: "length (filter is_create (calls_since fresh (snd (?g (snd (?g fresh)))))) \<le> 1"
    by blast
  from t 1 2 have d: "releases (snd (?g fresh)) (''niku'', Some ''otp-kuroko'', ''OTP-21.0'')
      = Some (1, ''u1'')"
    by blast
  from t 1 2 have "calls_since fresh (snd (?g (snd (?g fresh)))) =
         (if releases fresh (''niku'', Some ''otp-kuroko'', ''OTP-21.0'') = None
          then [GetReleaseByTag ''niku'' (Some ''otp-kuroko'') ''OTP-21.0'',
                CreateRelease ''niku'' (Some ''otp-kuroko'') ''OTP-21.0'',
                GetReleaseByTag ''niku'' (Some ''otp-kuroko'') ''OTP-21.0'']
          else [GetReleaseByTag ''niku'' (Some ''otp-kuroko'') ''OTP-21.0'',
                GetReleaseByTag ''niku'' (Some ''otp-kuroko'') ''OTP-21.0''])"
    by blast
  then have e: "calls_since fresh (snd (?g (snd (?g fresh)))) =
       [GetReleaseByTag ''niku'' (Some ''otp-kuroko'') ''OTP-21.0'',
        CreateRelease ''niku'' (Some ''otp-kuroko'') ''OTP-21.0'',
        GetReleaseByTag ''niku'' (Some ''otp-kuroko'') ''OTP-21.0'']"
    by (simp add: fresh_fields)
  from a b c d e show ?thesis by blast
qed


subsection \<open>Packaging\<close>

lemmas archive_defs = archive_def await_def resolve_def reject_def readdirSync_def chdir_def
  exec_def record_call_def Let_def

lemma length_one_hd: "length xs = Suc 0 \<Longrightarrow> xs = [hd xs]"
  by (cases xs) simp_all






lemma archive_success_cwd:
  assumes "fst (archive E name w) = Inr p"
  shows "cwd (snd (archive E name w)) = cwd w"
  using assms
  by (auto simp: archive_defs split: option.splits if_splits)

lemma archive_tar_fails:
  assumes "dir_entries E (trace w) (path_join (cwd w) ''release'') = Some ents"
    "map fst (filter snd ents) = [d]"
    "chdir_ok E (trace w @ [ReadDir (path_join (cwd w) ''release'')])
       (path_join (path_join (cwd w) ''release'') d)"
    "\<not> exec_ok E (trace w @ [ReadDir (path_join (cwd w) ''release''),
                  Chdir (path_join (path_join (cwd w) ''release'') d)])
       (Exec ''tar'' [''-zcf'', path_join (path_join (cwd w) ''release'') name, ''.''] None
           (path_join (path_join (cwd w) ''release'') d))"
  shows "archive E name w =
    (Inl (ExecError ''tar''),
     w\<lparr>cwd := path_join (path_join (cwd w) ''release'') d,
       trace := trace w @
        [ReadDir (path_join (cwd w) ''release''),
         Chdir (path_join (path_join (cwd w) ''release'') d),
         Exec ''tar'' [''-zcf'', path_join (path_join (cwd w) ''release'') name, ''.''] None
           (path_join (path_join (cwd w) ''release'') d)]\<rparr>)"
proof -
  from assms(2) have ne: "filter snd ents \<noteq> []" and l: "length (filter snd ents) = Suc 0"
    by (auto dest: arg_cong[of _ _ length])
  from assms(1) ne l  assms(3,4) show ?thesis
    by (simp add: archive_defs assms(2))
qed



lemma tar_failing_once_fields:
  "exec_ok (tar_failing_once p) tr c = (\<not> (is_tar c \<and> \<not> list_ex is_tar tr))"
  "dir_entries (tar_failing_once p) tr d = Some [(''otp'', True), (''README'', False)]"
  "chdir_ok (tar_failing_once p) tr d = True"
  by (simp_all add: tar_failing_once_def host_def)

lemma release_path: "path_join ''/w'' ''release'' = ''/w/release''"
  "path_join ''/w/release'' ''otp'' = ''/w/release/otp''"
  "path_join ''/w/release'' ''a.tar.gz'' = ''/w/release/a.tar.gz''"
  by (simp_all add: path_join_def)



text \<open>
  C10. \<open>archive\<close> keeps the working directory of its entry, enters the one
  subdirectory of the release directory for \<open>tar\<close>, and goes back only after \<open>tar\<close> has
  succeeded. When it returns a path the working directory is the one of the entry. When
  \<open>tar\<close> fails the error is the result and the working directory is still the
  subdirectory, so every command run afterwards is run from there.
\<close>

theorem C10_archive_working_directory:
  "(fst (archive E name w) = Inr p \<longrightarrow> cwd (snd (archive E name w)) = cwd w)
   \<and> (dir_entries E (trace w) (path_join (cwd w) ''release'') = Some ents
       \<and> map fst (filter snd ents) = [d]
       \<and> chdir_ok E (trace w @ [ReadDir (path_join (cwd w) ''release'')])
            (path_join (path_join (cwd w) ''release'') d)
       \<and> \<not> exec_ok E (trace w @ [ReadDir (path_join (cwd w) ''release''),
                       Chdir (path_join (path_join (cwd w) ''release'') d)])
            (Exec ''tar'' [''-zcf'', path_join (path_join (cwd w) ''release'') name, ''.''] None
               (path_join (path_join (cwd w) ''release'') d)) \<longrightarrow>
      fst (archive E name w) = Inl (ExecError ''tar'')
      \<and> cwd (snd (archive E name w)) = path_join (path_join (cwd w) ''release'') d)
   \<and> trace (snd (exec E' cmd args inp (snd (archive E name w)))) =
       trace (snd (archive E name w)) @ [Exec cmd args inp (cwd (snd (archive E name w)))]"
proof -
  have 1: "fst (archive E name w) = Inr p \<longrightarrow> cwd (snd (archive E name w)) = cwd w"
    using archive_success_cwd by blast
  have 2: "dir_entries E (trace w) (path_join (cwd w) ''release'') = Some ents
       \<and> map fst (filter snd ents) = [d]
       \<and> chdir_ok E (trace w @ [ReadDir (path_join (cwd w) ''release'')])
            (path_join (path_join (cwd w) ''release'') d)
       \<and> \<not> exec_ok E (trace w @ [ReadDir (path_join (cwd w) ''release''),
                       Chdir (path_join (path_join (cwd w) ''release'') d)])
            (Exec ''tar'' [''-zcf'', path_join (path_join (cwd w) ''release'') name, ''.''] None
               (path_join (path_join (cwd w) ''release'') d)) \<longrightarrow>
      fst (archive E name w) = Inl (ExecError ''tar'')
      \<and> cwd (snd (archive E name w)) = path_join (path_join (cwd w) ''release'') d"
    using archive_tar_fails[of E w ents d name] by auto
  have 3: "trace (snd (exec E' cmd args inp (snd (archive E name w)))) =
       trace (snd (archive E name w)) @ [Exec cmd args inp (cwd (snd (archive E name w)))]"
    by (simp add: exec_def record_call_def Let_def)
  from 1 2 3 show ?thesis by blast
qed

theorem C10_archive_working_directory_witness:
  "fst (archive (host ''linux'') ''a.tar.gz'' fresh) = Inr ''/w/release/a.tar.gz''
   \<and> cwd (snd (archive (host ''linux'') ''a.tar.gz'' fresh)) = ''/w''
   \<and> fst (archive (tar_failing_once ''linux'') ''a.tar.gz'' fresh) = Inl (ExecError ''tar'')
   \<and> cwd (snd (archive (tar_failing_once ''linux'') ''a.tar.gz'' fresh)) = ''/w/release/otp''"
proof -
  have a: "fst (archive (host ''linux'') ''a.tar.gz'' fresh) = Inr ''/w/release/a.tar.gz''"
    by (simp add: archive_defs host_fields fresh_fields release_path)
  from a C10_archive_working_directory
    [of "host ''linux''" "''a.tar.gz''" fresh "''/w/release/a.tar.gz''"]
  have b: "cwd (snd (archive (host ''linux'') ''a.tar.gz'' fresh)) = ''/w''"
    by (simp add: fresh_fields)
  from C10_archive_working_directory
    [of "tar_failing_once ''linux''" "''a.tar.gz''" fresh _
        "[(''otp'', True), (''README'', False)]" "''otp''"]
  have c: "fst (archive (tar_failing_once ''linux'') ''a.tar.gz'' fresh) = Inl (ExecError ''tar'')
   \<and> cwd (snd (archive (tar_failing_once ''linux'') ''a.tar.gz'' fresh)) = ''/w/release/otp''"
    by (simp add: tar_failing_once_fields fresh_fields release_path)
  from a b c show ?thesis by blast
qed


subsection \<open>Checksum\<close>

lemma split_on_nonempty: "split_on c s \<noteq> []"
  by (induction s) (auto split: list.splits)

lemma split_on_append:
  "split_on c (xs @ c # ys) = split_on c xs @ split_on c ys"
proof (induction xs)
  case Nil
  show ?case by simp
next
  case (Cons x xs)
  obtain y r where yr: "split_on c xs = y # r"
    using split_on_nonempty[of c xs] by (cases "split_on c xs") auto
  show ?case using Cons.IH by (simp add: yr)
qed

lemma split_on_none: "c \<notin> set s \<Longrightarrow> split_on c s = [s]"
  by (induction s) auto

lemma path_basename_slash:
  "CHR ''/'' \<notin> set b \<Longrightarrow> path_basename (d @ CHR ''/'' # b) = b"
  using split_on_append[of "CHR ''/''" d b] split_on_nonempty[of "CHR ''/''" d]
  by (simp add: path_basename_def split_on_none)

lemma path_dir_slash:
  "CHR ''/'' \<notin> set b \<Longrightarrow> d \<noteq> [] \<Longrightarrow> path_dir (d @ CHR ''/'' # b) = d"
  by (simp add: path_dir_def path_basename_slash Let_def)

lemma path_basename_plain: "CHR ''/'' \<notin> set b \<Longrightarrow> path_basename b = b"
  by (simp add: path_basename_def split_on_none)

lemma path_basename_ext_tar_gz:
  assumes "CHR ''/'' \<notin> set n" "n \<noteq> []"
  shows "path_basename_ext (n @ ''.tar.gz'') ''.tar.gz'' = n"
proof -
  have "path_basename (n @ ''.tar.gz'') = n @ ''.tar.gz''"
    using assms(1) by (simp add: path_basename_plain)
  then show ?thesis using assms(2) by (simp add: path_basename_ext_def Let_def)
qed

lemma path_join_plain:
  "d \<noteq> [] \<Longrightarrow> last d \<noteq> CHR ''/'' \<Longrightarrow> path_join d n = d @ CHR ''/'' # n"
  by (simp add: path_join_def)

lemma first_token_space: "CHR '' '' \<notin> set t \<Longrightarrow> first_token (t @ CHR '' '' # u) = t"
  by (simp add: first_token_def takeWhile_append)

lemma sha256_eq:
  assumes "d \<noteq> []" "last d \<noteq> CHR ''/''" "n \<noteq> []" "CHR ''/'' \<notin> set n"
  shows "sha256 E (d @ CHR ''/'' # n @ ''.tar.gz'') =
     await (exec E ''shasum'' [''-a'', ''256'', d @ CHR ''/'' # n @ ''.tar.gz''] None)
       (\<lambda>out. await (writeFileSync E (d @ CHR ''/'' # n @ ''.sha256.txt'')
                       (first_token (concat (stdlines out))))
                (\<lambda>_. resolve (d @ CHR ''/'' # n @ ''.sha256.txt'')))"
proof -
  have s: "CHR ''/'' \<notin> set (n @ ''.tar.gz'')" using assms(4) by simp
  have b: "path_basename (d @ CHR ''/'' # n @ ''.tar.gz'') = n @ ''.tar.gz''"
    using path_basename_slash[OF s, of d] by simp
  have dd: "path_dir (d @ CHR ''/'' # n @ ''.tar.gz'') = d"
    using path_dir_slash[OF s assms(1)] by simp
  show ?thesis
    unfolding sha256_def Let_def b dd path_basename_ext_tar_gz[OF assms(4,3)]
      path_join_plain[OF assms(1,2)]
    by simp
qed

lemma normal_path_nonempty: "normal_path d \<Longrightarrow> d \<noteq> []"
  by (auto simp: normal_path_def)

lemma normal_path_last:
  assumes "normal_path d"
  shows "last d \<noteq> CHR ''/''"
proof
  assume l: "last d = CHR ''/''"
  have ne: "d \<noteq> []" using assms by (rule normal_path_nonempty)
  then have d: "d = butlast d @ [CHR ''/'']" using l by (metis append_butlast_last_id)
  obtain y r where yr: "split_on CHR ''/'' (butlast d) = y # r"
    using split_on_nonempty[of "CHR ''/''" "butlast d"]
    by (cases "split_on CHR ''/'' (butlast d)") auto
  have "split_on CHR ''/'' d = y # r @ [[]]"
    using split_on_append[of "CHR ''/''" "butlast d" "[]"] d yr by simp
  then show False using assms by (simp add: normal_path_def plain_name_def)
qed

lemma stdlines_line:
  "CHR 0x0A \<notin> set l \<Longrightarrow> stdlines (l @ CHR 0x0A # rest) = l # stdlines rest"
  using split_on_nonempty[of "CHR 0x0A" rest]
  by (simp add: stdlines_def split_on_append split_on_none butlast_append)

lemma stdlines_unterminated: "CHR 0x0A \<notin> set l \<Longrightarrow> stdlines l = []"
  by (simp add: stdlines_def split_on_none)

text \<open>
  C9. For an archive \<open>d/n.tar.gz\<close> with \<open>d\<close> in normal form, \<open>sha256\<close> runs
  \<open>shasum -a 256\<close> on it. When that command fails, the failure is the result and
  nothing is written. Otherwise the text of the complete output lines (those that end
  with a line feed) before the first space, as it stands, is written to
  \<open>d/n.sha256.txt\<close>, and that path is returned when the write succeeds. The text is
  empty, and still written, when the command printed no complete line.
\<close>

theorem C9_checksum_sidecar:
  "(normal_path d \<and> n \<noteq> [] \<and> CHR ''/'' \<notin> set n \<longrightarrow>
     (\<not> exec_ok E (trace w)
          (Exec ''shasum'' [''-a'', ''256'', d @ ''/'' @ n @ ''.tar.gz''] None (cwd w)) \<longrightarrow>
        sha256 E (d @ ''/'' @ n @ ''.tar.gz'') w =
          (Inl (ExecError ''shasum''),
           w\<lparr>trace := trace w @
              [Exec ''shasum'' [''-a'', ''256'', d @ ''/'' @ n @ ''.tar.gz''] None (cwd w)]\<rparr>))
     \<and> (exec_ok E (trace w)
          (Exec ''shasum'' [''-a'', ''256'', d @ ''/'' @ n @ ''.tar.gz''] None (cwd w))
        \<and> write_ok E
            (trace w @ [Exec ''shasum'' [''-a'', ''256'', d @ ''/'' @ n @ ''.tar.gz''] None (cwd w)])
            (d @ ''/'' @ n @ ''.sha256.txt'') \<longrightarrow>
        sha256 E (d @ ''/'' @ n @ ''.tar.gz'') w =
          (Inr (d @ ''/'' @ n @ ''.sha256.txt''),
           w\<lparr>trace := trace w @
              [Exec ''shasum'' [''-a'', ''256'', d @ ''/'' @ n @ ''.tar.gz''] None (cwd w),
               WriteFile (d @ ''/'' @ n @ ''.sha256.txt'')
                 (first_token (concat (stdlines (exec_stdout E (trace w)
                    (Exec ''shasum'' [''-a'', ''256'', d @ ''/'' @ n @ ''.tar.gz''] None
                       (cwd w))))))]\<rparr>)))
   \<and> (CHR '' '' \<notin> set t \<longrightarrow> first_token (t @ CHR '' '' # u) = t)
   \<and> first_token [] = []
   \<and> (CHR 0x0A \<notin> set l \<longrightarrow> stdlines (l @ CHR 0x0A # rest) = l # stdlines rest)
   \<and> (CHR 0x0A \<notin> set l \<longrightarrow> stdlines l = [])
   \<and> (CHR 0x0A \<notin> set t \<and> CHR 0x0A \<notin> set u \<and> CHR 0x0A \<notin> set l \<and> CHR '' '' \<notin> set t \<longrightarrow>
        first_token (concat (stdlines (t @ CHR '' '' # u @ CHR 0x0A # l))) = t)"
proof -
  let ?c = "Exec ''shasum'' [''-a'', ''256'', d @ ''/'' @ n @ ''.tar.gz''] None (cwd w)"
  have 12: "normal_path d \<and> n \<noteq> [] \<and> CHR ''/'' \<notin> set n \<longrightarrow>
     (\<not> exec_ok E (trace w) ?c \<longrightarrow>
        sha256 E (d @ ''/'' @ n @ ''.tar.gz'') w =
          (Inl (ExecError ''shasum''), w\<lparr>trace := trace w @ [?c]\<rparr>))
     \<and> (exec_ok E (trace w) ?c
        \<and> write_ok E (trace w @ [?c]) (d @ ''/'' @ n @ ''.sha256.txt'') \<longrightarrow>
        sha256 E (d @ ''/'' @ n @ ''.tar.gz'') w =
          (Inr (d @ ''/'' @ n @ ''.sha256.txt''),
           w\<lparr>trace := trace w @
              [?c, WriteFile (d @ ''/'' @ n @ ''.sha256.txt'')
                 (first_token (concat (stdlines (exec_stdout E (trace w) ?c))))]\<rparr>))"
  proof
    assume h: "normal_path d \<and> n \<noteq> [] \<and> CHR ''/'' \<notin> set n"
    then have "d \<noteq> []" "last d \<noteq> CHR ''/''"
      using normal_path_nonempty normal_path_last by blast+
    with h have e: "sha256 E (d @ CHR ''/'' # n @ ''.tar.gz'') =
       await (exec E ''shasum'' [''-a'', ''256'', d @ CHR ''/'' # n @ ''.tar.gz''] None)
         (\<lambda>out. await (writeFileSync E (d @ CHR ''/'' # n @ ''.sha256.txt'')
                         (first_token (concat (stdlines out))))
                  (\<lambda>_. resolve (d @ CHR ''/'' # n @ ''.sha256.txt'')))"
      using sha256_eq by blast
    have 1: "\<not> exec_ok E (trace w) ?c \<longrightarrow>
          sha256 E (d @ ''/'' @ n @ ''.tar.gz'') w =
            (Inl (ExecError ''shasum''), w\<lparr>trace := trace w @ [?c]\<rparr>)"
      by (simp add: e await_def exec_def record_call_def Let_def)
    have 2: "exec_ok E (trace w) ?c
          \<and> write_ok E (trace w @ [?c]) (d @ ''/'' @ n @ ''.sha256.txt'') \<longrightarrow>
          sha256 E (d @ ''/'' @ n @ ''.tar.gz'') w =
            (Inr (d @ ''/'' @ n @ ''.sha256.txt''),
             w\<lparr>trace := trace w @
                [?c, WriteFile (d @ ''/'' @ n @ ''.sha256.txt'')
                   (first_token (concat (stdlines (exec_stdout E (trace w) ?c))))]\<rparr>)"
      by (simp add: e await_def exec_def record_call_def Let_def writeFileSync_def resolve_def)
    from 1 2 show "(\<not> exec_ok E (trace w) ?c \<longrightarrow>
        sha256 E (d @ ''/'' @ n @ ''.tar.gz'') w =
          (Inl (ExecError ''shasum''), w\<lparr>trace := trace w @ [?c]\<rparr>))
     \<and> (exec_ok E (trace w) ?c
        \<and> write_ok E (trace w @ [?c]) (d @ ''/'' @ n @ ''.sha256.txt'') \<longrightarrow>
        sha256 E (d @ ''/'' @ n @ ''.tar.gz'') w =
          (Inr (d @ ''/'' @ n @ ''.sha256.txt''),
           w\<lparr>trace := trace w @
              [?c, WriteFile (d @ ''/'' @ n @ ''.sha256.txt'')
                 (first_token (concat (stdlines (exec_stdout E (trace w) ?c))))]\<rparr>))"
      by blast
  qed
  have 3: "CHR '' '' \<notin> set t \<longrightarrow> first_token (t @ CHR '' '' # u) = t"
    using first_token_space by blast
  have 4: "first_token [] = []" by (simp add: first_token_def)
  have 5: "CHR 0x0A \<notin> set l \<longrightarrow> stdlines (l @ CHR 0x0A # rest) = l # stdlines rest"
    using stdlines_line by blast
  have 6: "CHR 0x0A \<notin> set l \<longrightarrow> stdlines l = []"
    using stdlines_unterminated by blast
  have 7: "CHR 0x0A \<notin> set t \<and> CHR 0x0A \<notin> set u \<and> CHR 0x0A \<notin> set l \<and> CHR '' '' \<notin> set t \<longrightarrow>
        first_token (concat (stdlines (t @ CHR '' '' # u @ CHR 0x0A # l))) = t"
  proof
    assume h: "CHR 0x0A \<notin> set t \<and> CHR 0x0A \<notin> set u \<and> CHR 0x0A \<notin> set l \<and> CHR '' '' \<notin> set t"
    then have "CHR 0x0A \<notin> set (t @ CHR '' '' # u)" by simp
    then have "stdlines ((t @ CHR '' '' # u) @ CHR 0x0A # l) = (t @ CHR '' '' # u) # stdlines l"
      by (rule stdlines_line)
    moreover have "stdlines l = []" using h stdlines_unterminated by blast
    ultimately have "concat (stdlines (t @ CHR '' '' # u @ CHR 0x0A # l)) = t @ CHR '' '' # u"
      by simp
    then show "first_token (concat (stdlines (t @ CHR '' '' # u @ CHR 0x0A # l))) = t"
      using h first_token_space by simp
  qed
  from 12 3 4 5 6 7 show ?thesis by blast
qed

lemma stdlines_shasum: "stdlines ''0a1b  x\<newline>'' = [''0a1b  x'']"
  by (simp add: stdlines_def)

lemma normal_release: "normal_path ''/w/release''"
  by (simp add: normal_path_def plain_name_def)

theorem C9_checksum_sidecar_witness:
  "sha256 (host ''linux'') ''/w/release/a.tar.gz'' fresh =
     (Inr ''/w/release/a.sha256.txt'',
      fresh\<lparr>trace :=
        [Exec ''shasum'' [''-a'', ''256'', ''/w/release/a.tar.gz''] None ''/w'',
         WriteFile ''/w/release/a.sha256.txt'' ''0a1b'']\<rparr>)
   \<and> first_token ''0a1b  x'' = ''0a1b''
   \<and> stdlines ''0a1b  x\<newline>'' = [''0a1b  x'']
   \<and> stdlines ''0a1b  x'' = []"
  using C9_checksum_sidecar
    [of "''/w/release''" "''a''" "host ''linux''" fresh "''0a1b''" "'' x''" "''0a1b  x''" "[]"]
  by (simp add: host_fields fresh_fields stdlines_shasum normal_release)

lemma silent_fields:
  "exec_ok (silent p) tr c = True" "exec_stdout (silent p) tr c = []"
  "write_ok (silent p) tr f = True"
  by (simp_all add: silent_def host_def)

lemma unterminated_fields:
  "exec_ok (unterminated p) tr c = True" "exec_stdout (unterminated p) tr c = ''0a1b  x''"
  "write_ok (unterminated p) tr f = True"
  by (simp_all add: unterminated_def host_def)

lemma sha256_release_a:
  assumes "exec_ok E [] (Exec ''shasum'' [''-a'', ''256'', ''/w/release/a.tar.gz''] None ''/w'')"
    "write_ok E [Exec ''shasum'' [''-a'', ''256'', ''/w/release/a.tar.gz''] None ''/w'']
       ''/w/release/a.sha256.txt''"
    "stdlines (exec_stdout E [] (Exec ''shasum'' [''-a'', ''256'', ''/w/release/a.tar.gz''] None ''/w''))
       = []"
  shows "sha256 E ''/w/release/a.tar.gz'' fresh =
     (Inr ''/w/release/a.sha256.txt'',
      fresh\<lparr>trace :=
        [Exec ''shasum'' [''-a'', ''256'', ''/w/release/a.tar.gz''] None ''/w'',
         WriteFile ''/w/release/a.sha256.txt'' []]\<rparr>)"
proof -
  have "sha256 E (''/w/release'' @ CHR ''/'' # ''a'' @ ''.tar.gz'') fresh =
     (Inr ''/w/release/a.sha256.txt'',
      fresh\<lparr>trace :=
        [Exec ''shasum'' [''-a'', ''256'', ''/w/release/a.tar.gz''] None ''/w'',
         WriteFile ''/w/release/a.sha256.txt'' []]\<rparr>)"
    using assms
    by (subst sha256_eq)
      (simp_all add: await_def exec_def record_call_def Let_def writeFileSync_def resolve_def
        fresh_fields first_token_def)
  then show ?thesis by simp
qed

theorem C9_counterexample:
  "exec_stdout (silent ''linux'') (trace fresh)
     (Exec ''shasum'' [''-a'', ''256'', ''/w/release/a.tar.gz''] None (cwd fresh)) = []
   \<and> sha256 (silent ''linux'') ''/w/release/a.tar.gz'' fresh =
     (Inr ''/w/release/a.sha256.txt'',
      fresh\<lparr>trace :=
        [Exec ''shasum'' [''-a'', ''256'', ''/w/release/a.tar.gz''] None ''/w'',
         WriteFile ''/w/release/a.sha256.txt'' []]\<rparr>)
   \<and> exec_stdout (unterminated ''linux'') (trace fresh)
     (Exec ''shasum'' [''-a'', ''256'', ''/w/release/a.tar.gz''] None (cwd fresh)) = ''0a1b  x''
   \<and> sha256 (unterminated ''linux'') ''/w/release/a.tar.gz'' fresh =
     (Inr ''/w/release/a.sha256.txt'',
      fresh\<lparr>trace :=
        [Exec ''shasum'' [''-a'', ''256'', ''/w/release/a.tar.gz''] None ''/w'',
         WriteFile ''/w/release/a.sha256.txt'' []]\<rparr>)"
proof -
  have 1: "sha256 (silent ''linux'') ''/w/release/a.tar.gz'' fresh =
     (Inr ''/w/release/a.sha256.txt'',
      fresh\<lparr>trace :=
        [Exec ''shasum'' [''-a'', ''256'', ''/w/release/a.tar.gz''] None ''/w'',
         WriteFile ''/w/release/a.sha256.txt'' []]\<rparr>)"
    by (rule sha256_release_a) (simp_all add: silent_fields stdlines_def)
  have 2: "sha256 (unterminated ''linux'') ''/w/release/a.tar.gz'' fresh =
     (Inr ''/w/release/a.sha256.txt'',
      fresh\<lparr>trace :=
        [Exec ''shasum'' [''-a'', ''256'', ''/w/release/a.tar.gz''] None ''/w'',
         WriteFile ''/w/release/a.sha256.txt'' []]\<rparr>)"
    by (rule sha256_release_a) (simp_all add: unterminated_fields stdlines_def)
  from 1 2 show ?thesis by (simp add: silent_fields unterminated_fields)
qed


subsection \<open>The per-version pipeline\<close>



lemmas pipeline_defs = process_version_def setupVersion_def getAsset_def
  listAssetsForRelease_def registry_defs exec_def not_assetId_def





lemma string_of_nat_2: "string_of_nat 2 = ''2''"
  by (simp add: string_of_nat.simps char_of_def bit_Suc_0_iff)

lemma stdlines_host:
  "stdlines ''Linux 5.4.0\<newline>'' = [''Linux 5.4.0'']"
  "stdlines ''OTP-21.0\<newline>OTP-21.1\<newline>'' = [''OTP-21.0'', ''OTP-21.1'']"
  "stdlines [] = []"
  by (simp_all add: stdlines_def)

lemma asset_name_host:
  "replace_first CHR '' '' CHR ''-'' (toLowerCase (trim ''Linux 5.4.0'')) = ''linux-5.4.0''"
  by (simp add: trim_def isStrWhiteSpace_def toLowerCase_def toLowerChar_def char_of_def
      bit_Suc_0_iff)

lemma sidecar_host:
  "path_join ''/w/release'' ''linux-5.4.0.tar.gz'' = ''/w/release/linux-5.4.0.tar.gz''"
  "path_join (path_dir ''/w/release/linux-5.4.0.tar.gz'')
     (path_basename_ext (path_basename ''/w/release/linux-5.4.0.tar.gz'') ''.tar.gz''
        @ ''.sha256.txt'') = ''/w/release/linux-5.4.0.sha256.txt''"
  "path_basename ''/w/release/linux-5.4.0.tar.gz'' = ''linux-5.4.0.tar.gz''"
  "path_basename ''/w/release/linux-5.4.0.sha256.txt'' = ''linux-5.4.0.sha256.txt''"
  "first_token ''0a1b  x'' = ''0a1b''"
  by (simp_all add: path_join_def path_dir_def path_basename_def path_basename_ext_def
      first_token_def)

lemmas eval_strings = string_of_nat_1 string_of_nat_2 stdlines_host stdlines_shasum
  asset_name_host release_path sidecar_host

lemmas eval_pipeline = pipeline_defs find_asset_def makeAsset_def maybePatch_refines make_def
  archive_defs sha256_def writeFileSync_def uploadAssets_def uploadAsset_def drop_promise_def
  statSync_size_def uploadReleaseAsset_def

lemma select_linux_21:
  "selectPatches ''linux'' (parse_version ''OTP-21.0'') = []"
  "selectPatches ''linux'' (parse_version ''OTP-21.1'') = []"
  by (simp_all add: eval_parse eval_rules)







subsection \<open>Only the loop writes to the log\<close>

lemma logs_await:
  assumes "\<And>w. logs (snd (m w)) = logs w" "\<And>x w. logs (snd (f x w)) = logs w"
  shows "logs (snd (await m f w)) = logs w"
proof (cases "m w")
  case (Pair r w')
  have "logs w' = logs w" using assms(1)[of w] Pair by simp
  then show ?thesis using Pair assms(2) by (cases r) (simp_all add: await_def)
qed

lemma logs_prims:
  "logs (snd (resolve x w)) = logs w"
  "logs (snd (reject e w)) = logs w"
  "logs (snd (exec E cmd args inp w)) = logs w"
  "logs (snd (readdirSync E d w)) = logs w"
  "logs (snd (chdir E d w)) = logs w"
  "logs (snd (writeFileSync E p txt w)) = logs w"
  "logs (snd (getRelease E owner repo tag w)) = logs w"
  "logs (snd (createReleaseApi E owner repo tag w)) = logs w"
  "logs (snd (listAssetsForRelease E owner repo rid w)) = logs w"
  by (simp_all add: resolve_def reject_def exec_def readdirSync_def chdir_def writeFileSync_def
      getRelease_def getReleaseByTag_def createReleaseApi_def listAssetsForRelease_def
      record_call_def Let_def split: option.splits)

lemma logs_apply_patches: "logs (snd (apply_patches E ps w)) = logs w"
  by (induction ps arbitrary: w) (simp_all add: logs_await logs_prims)

lemma logs_makeAsset: "logs (snd (makeAsset E v name w)) = logs w"
  by (simp add: makeAsset_def maybePatch_refines make_def archive_def sha256_def Let_def
      logs_await logs_prims logs_apply_patches split: prod.splits)

lemma logs_process_version: "logs (snd (process_version E owner repo name v w)) = logs w"
  by (simp add: process_version_def setupVersion_def getOrCreateRelease_def createRelease_def
      getAsset_def logs_await logs_prims logs_makeAsset uploadAssets_logs
      split: prod.splits option.splits)


lemma logs_before_loop: "logs (snd (before_loop E w)) = logs w"
  by (simp add: before_loop_def getAssetName_def getOTPVersions_def Let_def
      logs_await logs_prims split: option.splits)

lemma logs_loop_body:
  "logs (loop_body E owner repo name v w) =
     logs w @ Info (''Starting '' @ v @ ''.'') #
       (case fst (process_version E owner repo name v
                    (write_log (Info (''Starting '' @ v @ ''.'')) w)) of
          Inl e \<Rightarrow> [ErrorLog v e] | Inr u \<Rightarrow> [])"
proof -
  let ?w = "write_log (Info (''Starting '' @ v @ ''.'')) w"
  obtain r w' where p: "process_version E owner repo name v ?w = (r, w')"
    by (cases "process_version E owner repo name v ?w")
  have "logs w' = logs ?w" using logs_process_version[of E owner repo name v ?w] p by simp
  then show ?thesis using p
    by (cases r) (simp_all add: loop_body_def write_log_def)
qed

lemma for_versions_no_SetFailed:
  "SetFailed e \<in> set (logs (for_versions E owner repo name vs w)) \<Longrightarrow>
   SetFailed e \<in> set (logs w)"
proof (induction vs arbitrary: w)
  case Nil
  then show ?case by (simp add: for_versions_def)
next
  case (Cons v vs)
  from Cons.prems have "SetFailed e \<in> set (logs (for_versions E owner repo name vs
      (loop_body E owner repo name v w)))"
    by (simp add: for_versions_def)
  then have "SetFailed e \<in> set (logs (loop_body E owner repo name v w))"
    by (rule Cons.IH)
  then show ?case
    by (auto simp: logs_loop_body split: sum.splits)
qed

lemma run_failed:
  assumes "fst (before_loop E w) = Inl e"
  shows "logs (run E w) = logs w @ [SetFailed e]"
proof -
  obtain w' where b: "before_loop E w = (Inl e, w')"
    using assms by (cases "before_loop E w") auto
  have "logs w' = logs w" using logs_before_loop[of E w] b by simp
  then show ?thesis by (simp add: run_def b write_log_def)
qed

lemma run_not_failed:
  assumes "fst (before_loop E w) = Inr x" "SetFailed e \<in> set (logs (run E w))"
  shows "SetFailed e \<in> set (logs w)"
proof -
  obtain w' where b: "before_loop E w = (Inr x, w')"
    using assms(1) by (cases "before_loop E w") auto
  have l: "logs w' = logs w" using logs_before_loop[of E w] b by simp
  obtain owner repo name vs where x: "x = (owner, repo, name, vs)" by (cases x) auto
  from assms(2) have "SetFailed e \<in> set (logs (for_versions E owner repo name vs w'))"
    by (simp add: run_def b x)
  then show ?thesis using for_versions_no_SetFailed l by metis
qed

lemma upload_rejecting_fields:
  "platform (upload_rejecting p) = p" "cpu_count (upload_rejecting p) = 2"
  "secret_token (upload_rejecting p) = ''t''"
  "target_pattern (upload_rejecting p) = []"
  "github_repository (upload_rejecting p) = Some ''niku/otp-kuroko''"
  "exec_ok (upload_rejecting p) tr c = True" "exec_stdout (upload_rejecting p) = host_stdout"
  "dir_entries (upload_rejecting p) tr d = Some [(''otp'', True), (''README'', False)]"
  "file_size (upload_rejecting p) tr f = Some 1" "write_ok (upload_rejecting p) tr f = True"
  "chdir_ok (upload_rejecting p) tr d = True"
  "api_fault (upload_rejecting p) tr c = (if is_upload c then Some 500 else None)"
  "upload_url_of (upload_rejecting p) i = ''u'' @ string_of_nat i"
  by (simp_all add: upload_rejecting_def host_def)

lemmas eval_run = run_def before_loop_def getAssetName_def getOTPVersions_def for_versions_def
  loop_body_def write_log_def

lemma repository_host:
  "split_on CHR ''/'' ''niku/otp-kuroko'' = [''niku'', ''otp-kuroko'']"
  by simp

lemma run_upload_rejecting:
  "logs (run (upload_rejecting ''linux'') fresh) =
     [Info ''Starting OTP-21.0.'', Info ''Starting OTP-21.1.'']"
  "floating (run (upload_rejecting ''linux'') fresh) =
     [Inl (HttpError 500), Inl (HttpError 500), Inl (HttpError 500), Inl (HttpError 500)]"
  by (simp_all add: eval_run eval_pipeline upload_rejecting_fields fresh_fields
      select_linux_21 eval_strings)


lemma tar_failing_once_all_fields:
  "platform (tar_failing_once p) = p" "cpu_count (tar_failing_once p) = 2"
  "secret_token (tar_failing_once p) = ''t''"
  "target_pattern (tar_failing_once p) = []"
  "github_repository (tar_failing_once p) = Some ''niku/otp-kuroko''"
  "exec_stdout (tar_failing_once p) = host_stdout"
  "file_size (tar_failing_once p) tr f = Some 1" "write_ok (tar_failing_once p) tr f = True"
  "api_fault (tar_failing_once p) tr c = None"
  "upload_url_of (tar_failing_once p) i = ''u'' @ string_of_nat i"
  by (simp_all add: tar_failing_once_def host_def)

lemma paths_after_tar_failure:
  "path_join ''/w/release/otp'' ''release'' = ''/w/release/otp/release''"
  "path_join ''/w/release/otp/release'' ''otp'' = ''/w/release/otp/release/otp''"
  "path_join ''/w/release/otp/release'' ''linux-5.4.0.tar.gz''
     = ''/w/release/otp/release/linux-5.4.0.tar.gz''"
  "path_join (path_dir ''/w/release/otp/release/linux-5.4.0.tar.gz'')
     (path_basename_ext (path_basename ''/w/release/otp/release/linux-5.4.0.tar.gz'') ''.tar.gz''
        @ ''.sha256.txt'') = ''/w/release/otp/release/linux-5.4.0.sha256.txt''"
  "path_basename ''/w/release/otp/release/linux-5.4.0.tar.gz'' = ''linux-5.4.0.tar.gz''"
  "path_basename ''/w/release/otp/release/linux-5.4.0.sha256.txt'' = ''linux-5.4.0.sha256.txt''"
  by (simp_all add: path_join_def path_dir_def path_basename_def path_basename_ext_def)

text \<open>A run in which \<open>tar\<close> fails for the first version: the error is logged with that
  version, the second version is started, and its commands run in the subdirectory that
  \<open>archive\<close> has left the process in.\<close>

lemma run_tar_failing_once:
  "logs (run (tar_failing_once ''linux'') fresh) =
     [Info ''Starting OTP-21.0.'', ErrorLog ''OTP-21.0'' (ExecError ''tar''),
      Info ''Starting OTP-21.1.'']"
  "cwd (run (tar_failing_once ''linux'') fresh) = ''/w/release/otp''"
  "Exec ''git'' [''checkout'', ''--quiet'', ''OTP-21.1''] None ''/w/release/otp''
     \<in> set (trace (run (tar_failing_once ''linux'') fresh))"
  by (simp_all add: eval_run eval_pipeline tar_failing_once_fields tar_failing_once_all_fields
      fresh_fields select_linux_21 eval_strings paths_after_tar_failure)

lemma run_without_token:
  "logs (run ((host ''linux'')\<lparr>secret_token := []\<rparr>) fresh) = [SetFailed TokenRequired]"
  by (simp add: run_def before_loop_def reject_def write_log_def fresh_fields)

text \<open>
  C3. The loop runs the pipeline of every version in turn, whatever the result of the
  version before; an error that the pipeline returns is logged with the version and the
  loop goes on; \<open>setFailed\<close> is called exactly for an error before the loop. But the
  rejection of an upload never is an error of the pipeline: in a run over two versions
  in which the registry rejects all four uploads, the log holds the two start lines and
  no error, and the four rejections are outcomes of promises that nobody awaits.
\<close>

theorem C3_upload_errors_escape_the_loop:
  "for_versions E owner repo name [v1, v2] w =
     loop_body E owner repo name v2 (loop_body E owner repo name v1 w)
   \<and> logs (loop_body E owner repo name v w) =
       logs w @ Info (''Starting '' @ v @ ''.'') #
         (case fst (process_version E owner repo name v
                      (write_log (Info (''Starting '' @ v @ ''.'')) w)) of
            Inl e \<Rightarrow> [ErrorLog v e] | Inr u \<Rightarrow> [])
   \<and> (fst (before_loop E w) = Inl e \<longrightarrow> logs (run E w) = logs w @ [SetFailed e])
   \<and> (fst (before_loop E w) = Inr x \<and> SetFailed e' \<in> set (logs (run E w)) \<longrightarrow>
        SetFailed e' \<in> set (logs w))
   \<and> logs (run (upload_rejecting ''linux'') fresh) =
       [Info ''Starting OTP-21.0.'', Info ''Starting OTP-21.1.'']
   \<and> floating (run (upload_rejecting ''linux'') fresh) =
       [Inl (HttpError 500), Inl (HttpError 500), Inl (HttpError 500), Inl (HttpError 500)]"
proof -
  have 1: "for_versions E owner repo name [v1, v2] w =
     loop_body E owner repo name v2 (loop_body E owner repo name v1 w)"
    by (simp add: for_versions_def)
  have 3: "fst (before_loop E w) = Inl e \<longrightarrow> logs (run E w) = logs w @ [SetFailed e]"
    using run_failed by blast
  have 4: "fst (before_loop E w) = Inr x \<and> SetFailed e' \<in> set (logs (run E w)) \<longrightarrow>
        SetFailed e' \<in> set (logs w)"
    using run_not_failed by blast
  from 1 logs_loop_body[of E owner repo name v w] 3 4 run_upload_rejecting
  show ?thesis by blast
qed

theorem C3_upload_errors_escape_the_loop_witness:
  "logs (run ((host ''linux'')\<lparr>secret_token := []\<rparr>) fresh) = [SetFailed TokenRequired]
   \<and> SetFailed TokenRequired \<notin> set (logs (run (tar_failing_once ''linux'') fresh))
   \<and> logs (run (tar_failing_once ''linux'') fresh) =
       [Info ''Starting OTP-21.0.'', ErrorLog ''OTP-21.0'' (ExecError ''tar''),
        Info ''Starting OTP-21.1.'']"
proof -
  have b: "fst (before_loop (tar_failing_once ''linux'') fresh) =
      Inr (''niku'', Some ''otp-kuroko'', ''linux-5.4.0.tar.gz'', [''OTP-21.0'', ''OTP-21.1''])"
    by (simp add: eval_run eval_pipeline tar_failing_once_fields tar_failing_once_all_fields
        fresh_fields eval_strings)
  have f: "fst (before_loop ((host ''linux'')\<lparr>secret_token := []\<rparr>) fresh) = Inl TokenRequired"
    by (simp add: before_loop_def reject_def)
  note t1 = C3_upload_errors_escape_the_loop
    [of "tar_failing_once ''linux''" _ _ _ _ _ fresh _ _
        "(''niku'', Some ''otp-kuroko'', ''linux-5.4.0.tar.gz'', [''OTP-21.0'', ''OTP-21.1''])"
        TokenRequired]
  note t2 = C3_upload_errors_escape_the_loop
    [of "(host ''linux'')\<lparr>secret_token := []\<rparr>" _ _ _ _ _ fresh _ TokenRequired]
  from t1 b have n: "SetFailed TokenRequired \<notin> set (logs (run (tar_failing_once ''linux'') fresh))"
    by (auto simp: fresh_fields)
  from t2 f have s: "logs (run ((host ''linux'')\<lparr>secret_token := []\<rparr>) fresh)
      = [SetFailed TokenRequired]"
    by (simp add: fresh_fields)
  from n s run_tar_failing_once(1) show ?thesis by blast
qed

end
